theory Spec2Isabelle
  imports Main
begin

section \<open>In-memory transports: \<^verbatim>\<open>mcp_python/shared/memory.py\<close>\<close>

subsection \<open>Memory object streams\<close>

text \<open>
  The module builds on the memory object streams of the anyio library. A call of
  \<^verbatim>\<open>anyio.create_memory_object_stream\<close> allocates one shared state object (the queue) and
  two stream objects that refer to it. The state object and the \<^verbatim>\<open>_closed\<close> flag of a
  stream object are mutable and live in the heap; the reference of a stream object to its
  state never changes and is part of the handle.
\<close>

type_synonym addr = nat

record 'a MemoryObjectStreamState =
  max_buffer_size :: nat
  buffer :: "'a list"
  open_send_channels :: int
  open_receive_channels :: int

datatype send_stream = MemoryObjectSendStream (send_addr: addr) (send_state: addr)

datatype receive_stream = MemoryObjectReceiveStream (receive_addr: addr) (receive_state: addr)

record 'a heap =
  states :: "addr \<Rightarrow> 'a MemoryObjectStreamState"
  closed :: "addr \<Rightarrow> bool"
  lim :: addr

datatype stream_error = ClosedResourceError | BrokenResourceError | WouldBlock | EndOfStream

text \<open>
  Modelled from the spec: \<^verbatim>\<open>anyio.create_memory_object_stream\<close> is library code outside
  the module. It "allocates" a bounded queue with one producer endpoint and one consumer
  endpoint; the objects are fresh, so they are placed at the allocation limit of the heap.
\<close>

definition create_memory_object_stream ::
  "nat \<Rightarrow> 'a heap \<Rightarrow> (send_stream \<times> receive_stream) \<times> 'a heap" where
  "create_memory_object_stream n h =
     (let q = lim h;
          st = \<lparr>max_buffer_size = n, buffer = [],
                open_send_channels = 1, open_receive_channels = 1\<rparr>
      in ((MemoryObjectSendStream (q + 1) q, MemoryObjectReceiveStream (q + 2) q),
          h\<lparr>states := (states h)(q := st),
            closed := (closed h)(q + 1 := False, q + 2 := False),
            lim := q + 3\<rparr>))"

text \<open>
  Modelled from the spec: the non-blocking write of the library's send endpoint. "A writer
  suspends when the single buffer slot is full until the reader consumes": the write is
  refused with \<open>WouldBlock\<close> when the buffer holds \<open>max_buffer_size\<close> items, and the
  suspended writer is the task that tries again. A closed endpoint refuses every operation.
\<close>

definition send_nowait :: "send_stream \<Rightarrow> 'a \<Rightarrow> 'a heap \<Rightarrow> (stream_error + unit) \<times> 'a heap" where
  "send_nowait s item h =
     (if closed h (send_addr s) then (Inl ClosedResourceError, h)
      else let st = states h (send_state s) in
        if open_receive_channels st = 0 then (Inl BrokenResourceError, h)
        else if length (buffer st) < max_buffer_size st
        then (Inr (), h\<lparr>states := (states h)(send_state s := st\<lparr>buffer := buffer st @ [item]\<rparr>)\<rparr>)
        else (Inl WouldBlock, h))"

text \<open>
  Modelled from the spec: the non-blocking read of the library's receive endpoint. A read
  on an empty queue would block ("empty queue on read ... suspends the calling task until
  the peer acts"), or ends the stream when no send endpoint is open any more.
\<close>

definition receive_nowait :: "receive_stream \<Rightarrow> 'a heap \<Rightarrow> (stream_error + 'a) \<times> 'a heap" where
  "receive_nowait r h =
     (if closed h (receive_addr r) then (Inl ClosedResourceError, h)
      else let st = states h (receive_state r) in
        case buffer st of
          x # xs \<Rightarrow> (Inr x, h\<lparr>states := (states h)(receive_state r := st\<lparr>buffer := xs\<rparr>)\<rparr>)
        | [] \<Rightarrow> (if open_send_channels st = 0 then (Inl EndOfStream, h)
                 else (Inl WouldBlock, h)))"

text \<open>
  Modelled from the spec: closing an endpoint ("released (closed)"). The library's close is
  idempotent: the first close of a stream object sets its flag and gives up its channel of
  the shared state; a later close of the same object does nothing.
\<close>

definition close_send :: "send_stream \<Rightarrow> 'a heap \<Rightarrow> 'a heap" where
  "close_send s h =
     (if closed h (send_addr s) then h
      else let st = states h (send_state s) in
        h\<lparr>closed := (closed h)(send_addr s := True),
          states := (states h)(send_state s :=
                      st\<lparr>open_send_channels := open_send_channels st - 1\<rparr>)\<rparr>)"

definition close_receive :: "receive_stream \<Rightarrow> 'a heap \<Rightarrow> 'a heap" where
  "close_receive r h =
     (if closed h (receive_addr r) then h
      else let st = states h (receive_state r) in
        h\<lparr>closed := (closed h)(receive_addr r := True),
          states := (states h)(receive_state r :=
                      st\<lparr>open_receive_channels := open_receive_channels st - 1\<rparr>)\<rparr>)"

subsection \<open>Exceptions, outcomes and the call log\<close>

text \<open>
  An exception is a value. \<open>RuntimeError\<close> is the one exception the module's own machinery
  raises (the context-manager decorator, when its generator ends without a yield); every
  other exception, a cancellation included, comes from a collaborator or from the caller and
  is an \<open>Exn\<close>, or an \<open>ExceptionGroup\<close> of exceptions that a task group raises in place
  of the exceptions that pass through it. A statement returns, raises, or awaits something
  that never completes.
\<close>

datatype 'x exn = RuntimeError string | Exn 'x | ExceptionGroup string "'x exn list"

datatype ('x, 'r) outcome = Returns 'r | Raises "'x exn" | Suspends

type_synonym timedelta = int

type_synonym MessageStream = "receive_stream \<times> send_stream"

datatype endpoint = ReceiveEnd receive_stream | SendEnd send_stream

text \<open>The call \<^verbatim>\<open>server.run(read, write, options, raise_exceptions=flag)\<close> of one server.\<close>

record ('s, 'o) server_run =
  run_server :: 's
  run_read_stream :: receive_stream
  run_write_stream :: send_stream
  run_initialization_options :: 'o
  run_raise_exceptions :: bool

text \<open>
  The calls the module makes on its collaborators, in the order it makes them:
  closing a stream, starting a task in the task group, constructing the client session,
  the return of its \<^verbatim>\<open>initialize\<close>, handing a session to the caller, and cancelling the
  task group's scope.
\<close>

datatype ('s, 'o, 'c) event =
    Aclose endpoint
  | StartSoon "('s, 'o) server_run"
  | NewClientSession receive_stream send_stream "timedelta option"
  | Initialized 'c
  | Yield 'c
  | Cancel

record ('a, 's, 'o, 'c) world =
  mem :: "'a heap"
  log :: "('s, 'o, 'c) event list"

definition return :: "'r \<Rightarrow> 'w \<Rightarrow> ('x, 'r) outcome \<times> 'w" where
  "return v w = (Returns v, w)"

definition emit :: "('s, 'o, 'c) event \<Rightarrow> ('a, 's, 'o, 'c) world
    \<Rightarrow> ('x, unit) outcome \<times> ('a, 's, 'o, 'c) world" where
  "emit ev w = (Returns (), w\<lparr>log := log w @ [ev]\<rparr>)"

text \<open>An awaited collaborator works on the heap; it has no access to the log.\<close>

definition await :: "('a heap \<Rightarrow> ('x, 'r) outcome \<times> 'a heap) \<Rightarrow> ('a, 's, 'o, 'c) world
    \<Rightarrow> ('x, 'r) outcome \<times> ('a, 's, 'o, 'c) world" where
  "await f w = (case f (mem w) of (r, h) \<Rightarrow> (r, w\<lparr>mem := h\<rparr>))"

text \<open>Statement sequencing: the second statement runs only when the first returns.\<close>

definition bind :: "('w \<Rightarrow> ('x, 'r) outcome \<times> 'w) \<Rightarrow> ('r \<Rightarrow> 'w \<Rightarrow> ('x, 'q) outcome \<times> 'w)
    \<Rightarrow> 'w \<Rightarrow> ('x, 'q) outcome \<times> 'w" where
  "bind m f w =
     (case m w of
        (Returns v, w1) \<Rightarrow> f v w1
      | (Raises e, w1) \<Rightarrow> (Raises e, w1)
      | (Suspends, w1) \<Rightarrow> (Suspends, w1))"

text \<open>
  \<^verbatim>\<open>try: m finally: fin\<close>. The handler runs when the block returns and when it raises; an
  exception of the handler replaces the outcome of the block.
\<close>

definition try_finally :: "('w \<Rightarrow> ('x, 'r) outcome \<times> 'w) \<Rightarrow> ('w \<Rightarrow> ('x, unit) outcome \<times> 'w)
    \<Rightarrow> 'w \<Rightarrow> ('x, 'r) outcome \<times> 'w" where
  "try_finally m fin w =
     (case m w of
        (Suspends, w1) \<Rightarrow> (Suspends, w1)
      | (r, w1) \<Rightarrow>
          (case fin w1 of
             (Returns u, w2) \<Rightarrow> (r, w2)
           | (Raises e, w2) \<Rightarrow> (Raises e, w2)
           | (Suspends, w2) \<Rightarrow> (Suspends, w2)))"

text \<open>
  \<^verbatim>\<open>async with manager as v: body\<close>, given the manager's \<^verbatim>\<open>__aenter__\<close> and
  \<^verbatim>\<open>__aexit__\<close>. The exit runs on both ways out of the body; on an exception it decides by
  its result whether the exception is swallowed, and an exception of its own replaces it.
\<close>

definition async_with :: "('w \<Rightarrow> ('x, 'v) outcome \<times> 'w)
    \<Rightarrow> ('x exn option \<Rightarrow> 'w \<Rightarrow> ('x, bool) outcome \<times> 'w)
    \<Rightarrow> ('v \<Rightarrow> 'w \<Rightarrow> ('x, unit) outcome \<times> 'w)
    \<Rightarrow> 'w \<Rightarrow> ('x, unit) outcome \<times> 'w" where
  "async_with aenter aexit body w =
     (case aenter w of
        (Returns v, w1) \<Rightarrow>
          (case body v w1 of
             (Returns u, w2) \<Rightarrow>
               (case aexit None w2 of
                  (Returns b, w3) \<Rightarrow> (Returns (), w3)
                | (Raises e', w3) \<Rightarrow> (Raises e', w3)
                | (Suspends, w3) \<Rightarrow> (Suspends, w3))
           | (Raises e, w2) \<Rightarrow>
               (case aexit (Some e) w2 of
                  (Returns b, w3) \<Rightarrow> (if b then Returns () else Raises e, w3)
                | (Raises e', w3) \<Rightarrow> (Raises e', w3)
                | (Suspends, w3) \<Rightarrow> (Suspends, w3))
           | (Suspends, w2) \<Rightarrow> (Suspends, w2))
      | (Raises e, w1) \<Rightarrow> (Raises e, w1)
      | (Suspends, w1) \<Rightarrow> (Suspends, w1))"

subsection \<open>Streams as context managers\<close>

text \<open>
  Modelled from the spec: a stream object of the library entered in an \<^verbatim>\<open>async with\<close>
  is "registered for guaranteed release when the scope exits": entering returns the object,
  leaving closes it and swallows nothing.
\<close>

definition send_aclose :: "send_stream \<Rightarrow> ('a, 's, 'o, 'c) world
    \<Rightarrow> ('x, unit) outcome \<times> ('a, 's, 'o, 'c) world" where
  "send_aclose s w =
     (Returns (), w\<lparr>mem := close_send s (mem w), log := log w @ [Aclose (SendEnd s)]\<rparr>)"

definition receive_aclose :: "receive_stream \<Rightarrow> ('a, 's, 'o, 'c) world
    \<Rightarrow> ('x, unit) outcome \<times> ('a, 's, 'o, 'c) world" where
  "receive_aclose r w =
     (Returns (), w\<lparr>mem := close_receive r (mem w), log := log w @ [Aclose (ReceiveEnd r)]\<rparr>)"

definition send_aexit :: "send_stream \<Rightarrow> 'x exn option \<Rightarrow> ('a, 's, 'o, 'c) world
    \<Rightarrow> ('x, bool) outcome \<times> ('a, 's, 'o, 'c) world" where
  "send_aexit s exc = bind (send_aclose s) (\<lambda>u. return False)"

definition receive_aexit :: "receive_stream \<Rightarrow> 'x exn option \<Rightarrow> ('a, 's, 'o, 'c) world
    \<Rightarrow> ('x, bool) outcome \<times> ('a, 's, 'o, 'c) world" where
  "receive_aexit r exc = bind (receive_aclose r) (\<lambda>u. return False)"

subsection \<open>The paired channel factory\<close>

text \<open>
  Lines 33 to 42 of \<^verbatim>\<open>create_client_server_memory_streams\<close>: the two queues, one per
  direction, and the two endpoint pairs made of their ends.
\<close>

definition memory_streams :: "('a, 's, 'o, 'c) world
    \<Rightarrow> (MessageStream \<times> MessageStream) \<times> ('a, 's, 'o, 'c) world" where
  "memory_streams w =
     (case create_memory_object_stream 1 (mem w) of
        ((server_to_client_send, server_to_client_receive), h1) \<Rightarrow>
     (case create_memory_object_stream 1 h1 of
        ((client_to_server_send, client_to_server_receive), h2) \<Rightarrow>
     (let client_streams = (server_to_client_receive, client_to_server_send);
          server_streams = (client_to_server_receive, server_to_client_send)
      in ((client_streams, server_streams), w\<lparr>mem := h2\<rparr>))))"

text \<open>
  The whole generator: the four endpoints are entered in the order of the \<^verbatim>\<open>async with\<close>
  and the pairs are yielded inside. The yield is the continuation \<open>yield\<close>: the code of the
  caller that runs while the scope is open, with the way it ends. The generator reaches its
  yield on every run, so the decorator never finds a generator that did not yield.
\<close>

definition create_client_server_memory_streams ::
  "(MessageStream \<times> MessageStream \<Rightarrow> ('a, 's, 'o, 'c) world
      \<Rightarrow> ('x, unit) outcome \<times> ('a, 's, 'o, 'c) world)
    \<Rightarrow> ('a, 's, 'o, 'c) world \<Rightarrow> ('x, unit) outcome \<times> ('a, 's, 'o, 'c) world" where
  "create_client_server_memory_streams yield w =
     (case memory_streams w of
        (((server_to_client_receive, client_to_server_send),
          (client_to_server_receive, server_to_client_send)), w2) \<Rightarrow>
          async_with (return server_to_client_receive) (receive_aexit server_to_client_receive) (\<lambda>a.
          async_with (return client_to_server_send) (send_aexit client_to_server_send) (\<lambda>b.
          async_with (return client_to_server_receive) (receive_aexit client_to_server_receive) (\<lambda>c.
          async_with (return server_to_client_send) (send_aexit server_to_client_send) (\<lambda>d.
            yield ((server_to_client_receive, client_to_server_send),
                   (client_to_server_receive, server_to_client_send)))))) w2)"

subsection \<open>The session connector\<close>

text \<open>
  The connector is given a server object and builds a client session; both classes live in
  other modules, and the task group is the library's. What their methods do is a parameter
  of the connector: each awaited method is a function on the heap that returns, raises or
  never completes. \<open>session_aexit\<close> and \<open>task_group_aexit\<close> receive the exception that
  leaves the block, if any, and answer whether it is swallowed.
  \<open>create_initialization_options\<close> is a synchronous method of the server: it returns the
  options or raises.
\<close>

record ('a, 's, 'o, 'c, 'x) collaborators =
  create_initialization_options :: "'s \<Rightarrow> 'x exn + 'o"
  ClientSession :: "receive_stream \<Rightarrow> send_stream \<Rightarrow> timedelta option
    \<Rightarrow> 'a heap \<Rightarrow> ('x, 'c) outcome \<times> 'a heap"
  session_aenter :: "'c \<Rightarrow> 'a heap \<Rightarrow> ('x, 'c) outcome \<times> 'a heap"
  initialize :: "'c \<Rightarrow> 'a heap \<Rightarrow> ('x, unit) outcome \<times> 'a heap"
  session_aexit :: "'c \<Rightarrow> 'x exn option \<Rightarrow> 'a heap \<Rightarrow> ('x, bool) outcome \<times> 'a heap"
  task_group_aexit :: "'x exn option \<Rightarrow> 'a heap \<Rightarrow> ('x, bool) outcome \<times> 'a heap"

text \<open>
  \<^verbatim>\<open>tg.start_soon\<close> and \<^verbatim>\<open>tg.cancel_scope.cancel\<close> are synchronous calls on the task
  group; the log keeps them. Entering the task group awaits nothing. \<^verbatim>\<open>start_soon\<close>
  calls the function it is given at once, to obtain the coroutine of the new task: here the
  lambda of lines 70 to 75, which evaluates the arguments of \<^verbatim>\<open>server.run\<close>. When that
  call raises, \<^verbatim>\<open>start_soon\<close> raises and no task is started.
\<close>

definition start_soon :: "'x exn + ('s, 'o) server_run \<Rightarrow> ('a, 's, 'o, 'c) world
    \<Rightarrow> ('x, unit) outcome \<times> ('a, 's, 'o, 'c) world" where
  "start_soon func w =
     (case func of
        Inl e \<Rightarrow> (Raises e, w)
      | Inr task \<Rightarrow> emit (StartSoon task) w)"

definition cancel :: "('a, 's, 'o, 'c) world \<Rightarrow> ('x, unit) outcome \<times> ('a, 's, 'o, 'c) world" where
  "cancel = emit Cancel"

text \<open>
  The generator of \<^verbatim>\<open>create_connected_server_and_client_session\<close>, with its yield as the
  continuation \<open>yield\<close>.
\<close>

definition connector_generator ::
  "('a, 's, 'o, 'c, 'x) collaborators \<Rightarrow> 's \<Rightarrow> timedelta option \<Rightarrow> bool
    \<Rightarrow> ('c \<Rightarrow> ('a, 's, 'o, 'c) world \<Rightarrow> ('x, unit) outcome \<times> ('a, 's, 'o, 'c) world)
    \<Rightarrow> ('a, 's, 'o, 'c) world \<Rightarrow> ('x, unit) outcome \<times> ('a, 's, 'o, 'c) world" where
  "connector_generator env server read_timeout_seconds raise_exceptions yield =
     create_client_server_memory_streams (\<lambda>(client_streams, server_streams).
       case client_streams of (client_read, client_write) \<Rightarrow>
       case server_streams of (server_read, server_write) \<Rightarrow>
         async_with (return ()) (\<lambda>exc. await (task_group_aexit env exc)) (\<lambda>tg.
           bind (start_soon
                  (case create_initialization_options env server of
                     Inl e \<Rightarrow> Inl e
                   | Inr options \<Rightarrow>
                       Inr \<lparr>run_server = server,
                            run_read_stream = server_read,
                            run_write_stream = server_write,
                            run_initialization_options = options,
                            run_raise_exceptions = raise_exceptions\<rparr>)) (\<lambda>u.
           try_finally
             (bind (emit (NewClientSession client_read client_write read_timeout_seconds)) (\<lambda>u.
              bind (await (ClientSession env client_read client_write read_timeout_seconds)) (\<lambda>cs.
              async_with (await (session_aenter env cs))
                         (\<lambda>exc. await (session_aexit env cs exc)) (\<lambda>client_session.
                bind (await (initialize env client_session)) (\<lambda>u.
                bind (emit (Initialized client_session)) (\<lambda>u.
                yield client_session))))))
             cancel)))"

text \<open>
  The decorated function, used as \<^verbatim>\<open>async with ... as session: body\<close>. The yield logs the
  session and runs the body of the caller, which works on the heap. When the generator ends
  without having yielded, the decorator raises its \<open>RuntimeError\<close> in place of the entry.
\<close>

definition is_Yield :: "('s, 'o, 'c) event \<Rightarrow> bool" where
  "is_Yield ev = (case ev of Yield c \<Rightarrow> True | _ \<Rightarrow> False)"

definition create_connected_server_and_client_session ::
  "('a, 's, 'o, 'c, 'x) collaborators \<Rightarrow> 's \<Rightarrow> timedelta option \<Rightarrow> bool
    \<Rightarrow> ('c \<Rightarrow> 'a heap \<Rightarrow> ('x, unit) outcome \<times> 'a heap)
    \<Rightarrow> ('a, 's, 'o, 'c) world \<Rightarrow> ('x, unit) outcome \<times> ('a, 's, 'o, 'c) world" where
  "create_connected_server_and_client_session env server read_timeout_seconds raise_exceptions body w =
     (case connector_generator env server read_timeout_seconds raise_exceptions
             (\<lambda>client_session. bind (emit (Yield client_session)) (\<lambda>u. await (body client_session))) w of
        (Returns u, w') \<Rightarrow>
          if list_ex is_Yield (drop (length (log w)) (log w')) then (Returns (), w')
          else (Raises (RuntimeError ''generator didn't yield''), w')
      | (Raises e, w') \<Rightarrow> (Raises e, w')
      | (Suspends, w') \<Rightarrow> (Suspends, w'))"

text \<open>The events a run appends to the log.\<close>

definition appended :: "('a, 's, 'o, 'c) world \<Rightarrow> ('a, 's, 'o, 'c) world \<Rightarrow> ('s, 'o, 'c) event list" where
  "appended w w' = drop (length (log w)) (log w')"

text \<open>A heap with nothing allocated, and the world of a program that has made no call.\<close>

definition empty_heap :: "'a heap" where
  "empty_heap =
     \<lparr>states = (\<lambda>a. \<lparr>max_buffer_size = 0, buffer = [],
                     open_send_channels = 0, open_receive_channels = 0\<rparr>),
      closed = (\<lambda>a. True), lim = 0\<rparr>"

definition start :: "('a, 's, 'o, 'c) world" where
  "start = \<lparr>mem = empty_heap, log = []\<rparr>"

subsection \<open>Auxiliary notions for the statements\<close>

text \<open>
  What the four exits of the factory's \<^verbatim>\<open>async with\<close> do together, innermost first, and
  the calls they log.
\<close>

definition close_all :: "MessageStream \<times> MessageStream \<Rightarrow> ('a, 's, 'o, 'c) world \<Rightarrow> ('a, 's, 'o, 'c) world" where
  "close_all streams w =
     (case streams of ((server_to_client_receive, client_to_server_send),
                       (client_to_server_receive, server_to_client_send)) \<Rightarrow>
        w\<lparr>mem := close_receive server_to_client_receive (close_send client_to_server_send
                  (close_receive client_to_server_receive (close_send server_to_client_send (mem w)))),
          log := log w @ [Aclose (SendEnd server_to_client_send), Aclose (ReceiveEnd client_to_server_receive),
                          Aclose (SendEnd client_to_server_send), Aclose (ReceiveEnd server_to_client_receive)]\<rparr>)"

definition closes :: "MessageStream \<times> MessageStream \<Rightarrow> ('s, 'o, 'c) event list" where
  "closes streams =
     (case streams of ((server_to_client_receive, client_to_server_send),
                       (client_to_server_receive, server_to_client_send)) \<Rightarrow>
        [Aclose (SendEnd server_to_client_send), Aclose (ReceiveEnd client_to_server_receive),
         Aclose (SendEnd client_to_server_send), Aclose (ReceiveEnd server_to_client_receive)])"

text \<open>The yield of the connector and the block of lines 78 to 85 that contains it.\<close>

definition yield_to :: "('c \<Rightarrow> 'a heap \<Rightarrow> ('x, unit) outcome \<times> 'a heap) \<Rightarrow> 'c
    \<Rightarrow> ('a, 's, 'o, 'c) world \<Rightarrow> ('x, unit) outcome \<times> ('a, 's, 'o, 'c) world" where
  "yield_to body client_session = bind (emit (Yield client_session)) (\<lambda>u. await (body client_session))"

definition session_block ::
  "('a, 's, 'o, 'c, 'x) collaborators \<Rightarrow> receive_stream \<Rightarrow> send_stream \<Rightarrow> timedelta option
    \<Rightarrow> ('c \<Rightarrow> 'a heap \<Rightarrow> ('x, unit) outcome \<times> 'a heap)
    \<Rightarrow> ('a, 's, 'o, 'c) world \<Rightarrow> ('x, unit) outcome \<times> ('a, 's, 'o, 'c) world" where
  "session_block env client_read client_write read_timeout_seconds body =
     bind (emit (NewClientSession client_read client_write read_timeout_seconds)) (\<lambda>u.
     bind (await (ClientSession env client_read client_write read_timeout_seconds)) (\<lambda>cs.
     async_with (await (session_aenter env cs))
                (\<lambda>exc. await (session_aexit env cs exc)) (\<lambda>client_session.
       bind (await (initialize env client_session)) (\<lambda>u.
       bind (emit (Initialized client_session)) (\<lambda>u.
       yield_to body client_session)))))"

text \<open>
  Schedules of stream operations: any interleaving of non-blocking writes and reads by the
  tasks of the program, with what each operation did. \<open>sent_to q\<close> lists the items the
  queue \<open>q\<close> accepted and \<open>delivered_from q\<close> the items it handed to a reader, in order.
\<close>

datatype 'a op = Send send_stream 'a | Receive receive_stream

datatype 'a effect = Sent send_stream 'a | Delivered receive_stream 'a | Refused stream_error

fun step :: "'a op \<Rightarrow> 'a heap \<Rightarrow> 'a effect \<times> 'a heap" where
  "step (Send s m) h =
     (case send_nowait s m h of (Inr u, h') \<Rightarrow> (Sent s m, h') | (Inl e, h') \<Rightarrow> (Refused e, h'))"
| "step (Receive r) h =
     (case receive_nowait r h of (Inr m, h') \<Rightarrow> (Delivered r m, h') | (Inl e, h') \<Rightarrow> (Refused e, h'))"

fun run :: "'a op list \<Rightarrow> 'a heap \<Rightarrow> 'a effect list \<times> 'a heap" where
  "run [] h = ([], h)"
| "run (x # xs) h =
     (case step x h of (d, h1) \<Rightarrow> (case run xs h1 of (ds, h2) \<Rightarrow> (d # ds, h2)))"

fun sent_to :: "addr \<Rightarrow> 'a effect list \<Rightarrow> 'a list" where
  "sent_to q [] = []"
| "sent_to q (Sent s m # ds) = (if send_state s = q then m # sent_to q ds else sent_to q ds)"
| "sent_to q (d # ds) = sent_to q ds"

fun delivered_from :: "addr \<Rightarrow> 'a effect list \<Rightarrow> 'a list" where
  "delivered_from q [] = []"
| "delivered_from q (Delivered r m # ds) =
     (if receive_state r = q then m # delivered_from q ds else delivered_from q ds)"
| "delivered_from q (d # ds) = delivered_from q ds"

text \<open>Whether an event starts a task in the task group.\<close>

definition is_StartSoon :: "('s, 'o, 'c) event \<Rightarrow> bool" where
  "is_StartSoon ev = (case ev of StartSoon task \<Rightarrow> True | _ \<Rightarrow> False)"

subsection \<open>The declared types\<close>

text \<open>
  The type expressions of lines 16 to 19, 22 to 25 and 34 to 39, as data: the item type a
  stream is declared with, and the kinds of value such a type admits. \<open>MessageStream\<close> is
  the alias of line 16; the factory is declared to yield a pair of them, and both queues are
  created with the item type \<^verbatim>\<open>JSONRPCMessage | Exception\<close>.
\<close>

datatype annotation = JSONRPCMessage | Exception | Union annotation annotation

datatype kind = IsMessage | IsException

fun admits :: "annotation \<Rightarrow> kind \<Rightarrow> bool" where
  "admits JSONRPCMessage k = (k = IsMessage)"
| "admits Exception k = (k = IsException)"
| "admits (Union a b) k = (admits a k \<or> admits b k)"

datatype stream_annotation = ReceiveStreamOf annotation | SendStreamOf annotation

fun item_type :: "stream_annotation \<Rightarrow> annotation" where
  "item_type (ReceiveStreamOf a) = a"
| "item_type (SendStreamOf a) = a"

definition MessageStream_annotation :: "stream_annotation \<times> stream_annotation" where
  "MessageStream_annotation =
     (ReceiveStreamOf (Union JSONRPCMessage Exception), SendStreamOf JSONRPCMessage)"

definition yielded_annotation ::
  "(stream_annotation \<times> stream_annotation) \<times> (stream_annotation \<times> stream_annotation)" where
  "yielded_annotation = (MessageStream_annotation, MessageStream_annotation)"

definition server_to_client_item :: annotation where
  "server_to_client_item = Union JSONRPCMessage Exception"

definition client_to_server_item :: annotation where
  "client_to_server_item = Union JSONRPCMessage Exception"

subsection \<open>Collaborators to run the connector on\<close>

text \<open>
  A server that reports its options and a session whose handshake completes at once; the
  same with a handshake that times out; the same with a server whose
  \<^verbatim>\<open>create_initialization_options\<close> raises; and a caller that does nothing with the
  session. The session's exit swallows nothing. The task group's exit raises an exception
  that passes through it wrapped in a group, as the library's task group does.
\<close>

definition responsive :: "(nat, string, string, nat, string) collaborators" where
  "responsive =
     \<lparr>create_initialization_options = (\<lambda>server. Inr (server @ ''-options'')),
      ClientSession = (\<lambda>read_stream write_stream timeout h. (Returns 0, h)),
      session_aenter = (\<lambda>c h. (Returns c, h)),
      initialize = (\<lambda>c h. (Returns (), h)),
      session_aexit = (\<lambda>c exc h. (Returns False, h)),
      task_group_aexit = (\<lambda>exc h.
        case exc of
          None \<Rightarrow> (Returns False, h)
        | Some e \<Rightarrow> (Raises (ExceptionGroup ''unhandled errors in a TaskGroup'' [e]), h))\<rparr>"

definition stalled :: "(nat, string, string, nat, string) collaborators" where
  "stalled = responsive\<lparr>initialize := (\<lambda>c h. (Raises (Exn ''timeout''), h))\<rparr>"

definition unconfigured :: "(nat, string, string, nat, string) collaborators" where
  "unconfigured =
     responsive\<lparr>create_initialization_options := (\<lambda>server. Inl (Exn ''no options''))\<rparr>"

definition idle :: "nat \<Rightarrow> nat heap \<Rightarrow> (string, unit) outcome \<times> nat heap" where
  "idle c h = (Returns (), h)"

section \<open>Properties\<close>

subsection \<open>How the factory and the connector run\<close>

lemma memory_streams_eq:
  "memory_streams w =
     (let q = lim (mem w) in
      (((MemoryObjectReceiveStream (q + 2) q, MemoryObjectSendStream (q + 4) (q + 3)),
        (MemoryObjectReceiveStream (q + 5) (q + 3), MemoryObjectSendStream (q + 1) q)),
       w\<lparr>mem := snd (create_memory_object_stream 1 (snd (create_memory_object_stream 1 (mem w))))\<rparr>))"
  by (simp add: memory_streams_def create_memory_object_stream_def Let_def)

lemma stream_exit_simps:
  "async_with (return v) (send_aexit s) body w =
     (case body v w of
        (Suspends, w2) \<Rightarrow> (Suspends, w2)
      | (r, w2) \<Rightarrow> (r, w2\<lparr>mem := close_send s (mem w2), log := log w2 @ [Aclose (SendEnd s)]\<rparr>))"
  "async_with (return v') (receive_aexit r') body w =
     (case body v' w of
        (Suspends, w2) \<Rightarrow> (Suspends, w2)
      | (r, w2) \<Rightarrow> (r, w2\<lparr>mem := close_receive r' (mem w2), log := log w2 @ [Aclose (ReceiveEnd r')]\<rparr>))"
  by (auto simp: async_with_def return_def send_aexit_def receive_aexit_def bind_def
      send_aclose_def receive_aclose_def split: prod.splits outcome.splits)

lemma factory_eq:
  "create_client_server_memory_streams yield w =
     (case memory_streams w of (streams, w2) \<Rightarrow>
        (case yield streams w2 of
           (Suspends, wb) \<Rightarrow> (Suspends, wb)
         | (r, wb) \<Rightarrow> (r, close_all streams wb)))"
  by (auto simp: create_client_server_memory_streams_def stream_exit_simps close_all_def
      split: prod.splits outcome.splits)



lemma await_mem_log [simp]:
  "log (snd (await f w)) = log w" "mem (snd (await f w)) = snd (f (mem w))"
  "fst (await f w) = fst (f (mem w))"
  by (simp_all add: await_def split: prod.splits)

lemma yield_to_run:
  "yield_to body c w = (fst (body c (mem w)), w\<lparr>mem := snd (body c (mem w)), log := log w @ [Yield c]\<rparr>)"
  by (simp add: yield_to_def bind_def emit_def await_def split: prod.splits)

lemma session_block_log:
  assumes "session_block env cr cw t body w = (r, w')"
  shows "log w' = log w @ [NewClientSession cr cw t] \<or>
         (\<exists>cs c h3 h4 h5. log w' = log w @ [NewClientSession cr cw t, Initialized c, Yield c] \<and>
            ClientSession env cr cw t (mem w) = (Returns cs, h3) \<and>
            session_aenter env cs h3 = (Returns c, h4) \<and>
            initialize env c h4 = (Returns (), h5))"
  using assms
  by (auto simp: session_block_def bind_def emit_def await_def async_with_def yield_to_run
      split: prod.splits outcome.splits if_splits)

lemma session_block_init_raises:
  assumes "ClientSession env cr cw t (mem w) = (Returns cs, h3)"
    and "session_aenter env cs h3 = (Returns c, h4)"
    and "initialize env c h4 = (Raises e, h5)"
  shows "session_block env cr cw t body w =
     (case session_aexit env cs (Some e) h5 of
        (Returns b, h6) \<Rightarrow> (if b then Returns () else Raises e, w\<lparr>mem := h6, log := log w @ [NewClientSession cr cw t]\<rparr>)
      | (Raises e', h6) \<Rightarrow> (Raises e', w\<lparr>mem := h6, log := log w @ [NewClientSession cr cw t]\<rparr>)
      | (Suspends, h6) \<Rightarrow> (Suspends, w\<lparr>mem := h6, log := log w @ [NewClientSession cr cw t]\<rparr>))"
  using assms
  by (auto simp: session_block_def bind_def emit_def await_def async_with_def
      split: prod.splits outcome.splits)

lemma try_finally_cancel:
  "try_finally m cancel w =
     (case m w of
        (Suspends, w1) \<Rightarrow> (Suspends, w1)
      | (r, w1) \<Rightarrow> (r, w1\<lparr>log := log w1 @ [Cancel]\<rparr>))"
  by (auto simp: try_finally_def cancel_def emit_def split: prod.splits outcome.splits)


lemma close_all_log: "log (close_all streams w) = log w @ closes streams"
  by (simp add: close_all_def closes_def split: prod.splits)

lemma memory_streams_log: "memory_streams w = (streams, w2) \<Longrightarrow> log w2 = log w"
  by (auto simp: memory_streams_eq Let_def)

lemma task_group_run:
  assumes "async_with (return ()) (\<lambda>exc. await (tg exc))
             (\<lambda>g. bind (start_soon (Inr task)) (\<lambda>u. Z)) w = (r, w')"
    and "Z (w\<lparr>log := log w @ [StartSoon task]\<rparr>) = (rz, wz)"
  shows "log w' = log wz \<and> (r \<noteq> Suspends \<longrightarrow> rz \<noteq> Suspends)"
  using assms
  by (auto simp: async_with_def return_def bind_def start_soon_def emit_def await_def
      split: prod.splits outcome.splits if_splits)

lemma task_group_not_started:
  "async_with (return ()) (\<lambda>exc. await (tg exc)) (\<lambda>g. bind (start_soon (Inl e)) (\<lambda>u. Z)) w =
     (case tg (Some e) (mem w) of
        (Returns b, h) \<Rightarrow> (if b then Returns () else Raises e, w\<lparr>mem := h\<rparr>)
      | (Raises e', h) \<Rightarrow> (Raises e', w\<lparr>mem := h\<rparr>)
      | (Suspends, h) \<Rightarrow> (Suspends, w\<lparr>mem := h\<rparr>))"
  by (auto simp: async_with_def return_def bind_def start_soon_def await_def
      split: prod.splits outcome.splits)

lemma generator_eq:
  "connector_generator env server t r (yield_to body) w =
     (case memory_streams w of (((cr, cw), (sr, sw)), w2) \<Rightarrow>
        (case async_with (return ()) (\<lambda>exc. await (task_group_aexit env exc)) (\<lambda>g.
                bind (start_soon
                       (case create_initialization_options env server of
                          Inl e \<Rightarrow> Inl e
                        | Inr opts \<Rightarrow> Inr \<lparr>run_server = server, run_read_stream = sr, run_write_stream = sw,
                 run_initialization_options = opts, run_raise_exceptions = r\<rparr>)) (\<lambda>u.
                try_finally (session_block env cr cw t body) cancel)) w2 of
           (Suspends, wb) \<Rightarrow> (Suspends, wb)
         | (rb, wb) \<Rightarrow> (rb, close_all ((cr, cw), (sr, sw)) wb)))"
  by (simp add: connector_generator_def factory_eq session_block_def yield_to_def split: prod.splits)

lemma generator_not_started:
  assumes ms: "memory_streams w = (((cr, cw), (sr, sw)), w2)"
    and opts: "create_initialization_options env server = Inl e"
    and run: "connector_generator env server t r (yield_to body) w = (out, w')"
  shows "(out = Suspends \<and> log w' = log w) \<or>
         (out \<noteq> Suspends \<and> log w' = log w @ closes ((cr, cw), (sr, sw)) \<and>
            (\<exists>wb. w' = close_all ((cr, cw), (sr, sw)) wb))"
proof -
  let ?G = "async_with (return ()) (\<lambda>exc. await (task_group_aexit env exc)) (\<lambda>g.
                bind (start_soon (Inl e)) (\<lambda>u. try_finally (session_block env cr cw t body) cancel))"
  obtain rg w6 where G: "?G w2 = (rg, w6)" by (cases "?G w2")
  have l2: "log w2 = log w" using ms by (rule memory_streams_log)
  have l6: "log w6 = log w2"
    using G by (auto simp: task_group_not_started split: prod.splits outcome.splits)
  have fin: "(rg = Suspends \<and> out = Suspends \<and> w' = w6) \<or>
             (rg \<noteq> Suspends \<and> out = rg \<and> w' = close_all ((cr, cw), (sr, sw)) w6)"
    using run ms G opts by (auto simp: generator_eq split: outcome.splits)
  then show ?thesis using l2 l6 by (auto simp: close_all_log)
qed

lemma generator_shape:
  assumes ms: "memory_streams w = (((cr, cw), (sr, sw)), w2)"
    and opts: "create_initialization_options env server = Inr opts"
    and run: "connector_generator env server t r (yield_to body) w = (out, w')"
  shows "\<exists>mid tl. log w' = log w @ StartSoon \<lparr>run_server = server, run_read_stream = sr, run_write_stream = sw,
                 run_initialization_options = opts, run_raise_exceptions = r\<rparr> # NewClientSession cr cw t # mid @ tl
        \<and> (mid = [] \<or> (\<exists>cs c h3 h4 h5. mid = [Initialized c, Yield c] \<and>
              ClientSession env cr cw t (mem w2) = (Returns cs, h3) \<and>
              session_aenter env cs h3 = (Returns c, h4) \<and>
              initialize env c h4 = (Returns (), h5)))
        \<and> (tl = [] \<or> tl = [Cancel] \<or> tl = Cancel # closes ((cr, cw), (sr, sw)))
        \<and> (out \<noteq> Suspends \<longrightarrow> tl = Cancel # closes ((cr, cw), (sr, sw))
              \<and> (\<exists>wb. w' = close_all ((cr, cw), (sr, sw)) wb))"
proof -
  let ?task = "\<lparr>run_server = server, run_read_stream = sr, run_write_stream = sw,
                 run_initialization_options = opts, run_raise_exceptions = r\<rparr>"
  let ?w3 = "w2\<lparr>log := log w2 @ [StartSoon ?task]\<rparr>"
  let ?G = "async_with (return ()) (\<lambda>exc. await (task_group_aexit env exc)) (\<lambda>g.
                bind (start_soon (Inr ?task)) (\<lambda>u. try_finally (session_block env cr cw t body) cancel))"
  obtain rs w4 where S: "session_block env cr cw t body ?w3 = (rs, w4)" by (cases "session_block env cr cw t body ?w3")
  obtain rz wz where Z: "try_finally (session_block env cr cw t body) cancel ?w3 = (rz, wz)"
    by (cases "try_finally (session_block env cr cw t body) cancel ?w3")
  obtain rg w6 where G: "?G w2 = (rg, w6)" by (cases "?G w2")
  have l2: "log w2 = log w" using ms by (rule memory_streams_log)
  from session_block_log [OF S]
  have mid: "\<exists>mid. log w4 = log ?w3 @ NewClientSession cr cw t # mid \<and>
      (mid = [] \<or> (\<exists>cs c h3 h4 h5. mid = [Initialized c, Yield c] \<and>
              ClientSession env cr cw t (mem w2) = (Returns cs, h3) \<and>
              session_aenter env cs h3 = (Returns c, h4) \<and>
              initialize env c h4 = (Returns (), h5)))"
    by auto
  have tl: "(rz = Suspends \<and> log wz = log w4) \<or> (rz \<noteq> Suspends \<and> log wz = log w4 @ [Cancel])"
    using Z S by (auto simp: try_finally_cancel split: outcome.splits)
  from task_group_run [OF G Z] have g: "log w6 = log wz" "rg \<noteq> Suspends \<longrightarrow> rz \<noteq> Suspends" by auto
  have fin: "(rg = Suspends \<and> out = Suspends \<and> w' = w6) \<or>
             (rg \<noteq> Suspends \<and> out = rg \<and> w' = close_all ((cr, cw), (sr, sw)) w6)"
    using run ms G opts by (auto simp: generator_eq split: outcome.splits)
  from mid obtain mid where m: "log w4 = log ?w3 @ NewClientSession cr cw t # mid"
     and m2: "mid = [] \<or> (\<exists>cs c h3 h4 h5. mid = [Initialized c, Yield c] \<and>
              ClientSession env cr cw t (mem w2) = (Returns cs, h3) \<and>
              session_aenter env cs h3 = (Returns c, h4) \<and>
              initialize env c h4 = (Returns (), h5))" by blast
  show ?thesis
  proof (cases "rg = Suspends")
    case True
    then have "out = Suspends" "w' = w6" using fin by auto
    then have "log w' = log w @ StartSoon ?task # NewClientSession cr cw t # mid @ (if rz = Suspends then [] else [Cancel])"
      using g tl m l2 by auto
    then show ?thesis using m2 \<open>out = Suspends\<close> by (intro exI [of _ mid] exI [of _ "if rz = Suspends then [] else [Cancel]"]) auto
  next
    case False
    then have o: "out = rg" "w' = close_all ((cr, cw), (sr, sw)) w6" using fin by auto
    from False g have "rz \<noteq> Suspends" by simp
    then have "log w6 = log w4 @ [Cancel]" using tl g by auto
    then have "log w' = log w @ StartSoon ?task # NewClientSession cr cw t # mid @ (Cancel # closes ((cr, cw), (sr, sw)))"
      using o m l2 by (simp add: close_all_log)
    then show ?thesis using m2 o by (intro exI [of _ mid] exI [of _ "Cancel # closes ((cr, cw), (sr, sw))"]) auto
  qed
qed

lemma memory_streams_mem:
  "mem (snd (memory_streams w)) =
     (let q = lim (mem w);
          st = \<lparr>max_buffer_size = 1, buffer = [], open_send_channels = 1, open_receive_channels = 1\<rparr>
      in (mem w)\<lparr>states := (states (mem w))(q := st, q + 3 := st),
                 closed := (closed (mem w))(q + 1 := False, q + 2 := False, q + 4 := False, q + 5 := False),
                 lim := q + 6\<rparr>)"
  by (simp add: memory_streams_eq create_memory_object_stream_def Let_def add.commute)

lemma send_then_receive:
  assumes "\<not> closed h (send_addr s)" "\<not> closed h (receive_addr r)"
    and "receive_state r = send_state s"
    and "open_receive_channels (states h (send_state s)) \<noteq> 0"
    and "buffer (states h (send_state s)) = []"
    and "0 < max_buffer_size (states h (send_state s))"
  shows "fst (send_nowait s m h) = Inr ()"
    and "fst (receive_nowait r (snd (send_nowait s m h))) = Inr m"
  using assms by (auto simp: send_nowait_def receive_nowait_def Let_def)

lemma send_nowait_buffer:
  "send_nowait s m h = (Inr (), h') \<Longrightarrow>
     buffer (states h' (send_state s)) = buffer (states h (send_state s)) @ [m]"
  by (auto simp: send_nowait_def Let_def split: if_splits)

lemma receive_nowait_buffer:
  "receive_nowait r h = (Inr m, h') \<Longrightarrow>
     buffer (states h (receive_state r)) = m # buffer (states h' (receive_state r))"
  by (auto simp: receive_nowait_def Let_def split: if_splits list.splits)

lemma close_send_effect:
  "closed (close_send s h) a = (a = send_addr s \<or> closed h a)"
  "buffer (states (close_send s h) q) = buffer (states h q)"
  "open_receive_channels (states (close_send s h) q) = open_receive_channels (states h q)"
  "open_send_channels (states (close_send s h) q) =
     open_send_channels (states h q) - (if \<not> closed h (send_addr s) \<and> q = send_state s then 1 else 0)"
  by (auto simp: close_send_def Let_def)

lemma close_receive_effect:
  "closed (close_receive r h) a = (a = receive_addr r \<or> closed h a)"
  "buffer (states (close_receive r h) q) = buffer (states h q)"
  "open_send_channels (states (close_receive r h) q) = open_send_channels (states h q)"
  "open_receive_channels (states (close_receive r h) q) =
     open_receive_channels (states h q) - (if \<not> closed h (receive_addr r) \<and> q = receive_state r then 1 else 0)"
  by (auto simp: close_receive_def Let_def)

lemma close_all_mem:
  "mem (close_all ((a, b), (c, d)) w) =
     close_receive a (close_send b (close_receive c (close_send d (mem w))))"
  by (simp add: close_all_def)

lemma connector_eq:
  "create_connected_server_and_client_session env server t r body w =
     (case connector_generator env server t r (yield_to body) w of
        (Returns u, w') \<Rightarrow>
          if list_ex is_Yield (appended w w') then (Returns (), w')
          else (Raises (RuntimeError ''generator didn't yield''), w')
      | (Raises e, w') \<Rightarrow> (Raises e, w')
      | (Suspends, w') \<Rightarrow> (Suspends, w'))"
  unfolding create_connected_server_and_client_session_def yield_to_def appended_def ..

lemma no_yield_in_closes [simp]: "\<not> list_ex is_Yield (closes streams)" "Yield c \<notin> set (closes streams)"
  "Cancel \<notin> set (closes streams)" "StartSoon task \<notin> set (closes streams)"
  by (auto simp: closes_def is_Yield_def split: prod.splits)

lemma connector_shape:
  assumes ms: "memory_streams w = (((cr, cw), (sr, sw)), w2)"
    and opts: "create_initialization_options env server = Inr opts"
    and run: "create_connected_server_and_client_session env server t r body w = (out, w')"
  shows "\<exists>mid tl. appended w w' = StartSoon \<lparr>run_server = server, run_read_stream = sr, run_write_stream = sw,
                 run_initialization_options = opts, run_raise_exceptions = r\<rparr> # NewClientSession cr cw t # mid @ tl
        \<and> (mid = [] \<or> (\<exists>cs c h3 h4 h5. mid = [Initialized c, Yield c] \<and>
              ClientSession env cr cw t (mem w2) = (Returns cs, h3) \<and>
              session_aenter env cs h3 = (Returns c, h4) \<and>
              initialize env c h4 = (Returns (), h5)))
        \<and> (tl = [] \<or> tl = [Cancel] \<or> tl = Cancel # closes ((cr, cw), (sr, sw)))
        \<and> (out \<noteq> Suspends \<longrightarrow> tl = Cancel # closes ((cr, cw), (sr, sw))
              \<and> (\<exists>wb. w' = close_all ((cr, cw), (sr, sw)) wb))
        \<and> (out = Returns () \<longrightarrow> mid \<noteq> [])"
proof -
  obtain og wg where g: "connector_generator env server t r (yield_to body) w = (og, wg)"
    by (cases "connector_generator env server t r (yield_to body) w")
  have w': "w' = wg" and o: "out \<noteq> Suspends \<Longrightarrow> og \<noteq> Suspends"
    and y: "out = Returns () \<Longrightarrow> list_ex is_Yield (appended w wg)"
    using run g by (auto simp: connector_eq split: outcome.splits if_splits)
  from generator_shape [OF ms opts g] obtain mid tl where
    l: "log wg = log w @ StartSoon \<lparr>run_server = server, run_read_stream = sr, run_write_stream = sw,
                 run_initialization_options = opts, run_raise_exceptions = r\<rparr> # NewClientSession cr cw t # mid @ tl"
    and m: "mid = [] \<or> (\<exists>cs c h3 h4 h5. mid = [Initialized c, Yield c] \<and>
              ClientSession env cr cw t (mem w2) = (Returns cs, h3) \<and>
              session_aenter env cs h3 = (Returns c, h4) \<and>
              initialize env c h4 = (Returns (), h5))"
    and t: "tl = [] \<or> tl = [Cancel] \<or> tl = Cancel # closes ((cr, cw), (sr, sw))"
    and e: "og \<noteq> Suspends \<longrightarrow> tl = Cancel # closes ((cr, cw), (sr, sw))
              \<and> (\<exists>wb. wg = close_all ((cr, cw), (sr, sw)) wb)"
    by blast
  have a: "appended w wg = StartSoon \<lparr>run_server = server, run_read_stream = sr, run_write_stream = sw,
                 run_initialization_options = opts, run_raise_exceptions = r\<rparr> # NewClientSession cr cw t # mid @ tl"
    using l by (simp add: appended_def)
  have "mid \<noteq> []" if "out = Returns ()"
  proof
    assume "mid = []"
    with y [OF that] a t show False by (auto simp: is_Yield_def)
  qed
  with a m t e o show ?thesis unfolding w' by blast
qed

lemma connector_not_started:
  assumes ms: "memory_streams w = (((cr, cw), (sr, sw)), w2)"
    and opts: "create_initialization_options env server = Inl e"
    and run: "create_connected_server_and_client_session env server t r body w = (out, w')"
  shows "out \<noteq> Returns () \<and>
         (out = Suspends \<longrightarrow> appended w w' = []) \<and>
         (out \<noteq> Suspends \<longrightarrow> appended w w' = closes ((cr, cw), (sr, sw)) \<and>
            (\<exists>wb. w' = close_all ((cr, cw), (sr, sw)) wb))"
proof -
  obtain og wg where g: "connector_generator env server t r (yield_to body) w = (og, wg)"
    by (cases "connector_generator env server t r (yield_to body) w")
  from generator_not_started [OF ms opts g]
  have l: "(og = Suspends \<and> appended w wg = []) \<or>
         (og \<noteq> Suspends \<and> appended w wg = closes ((cr, cw), (sr, sw)) \<and>
            (\<exists>wb. wg = close_all ((cr, cw), (sr, sw)) wb))"
    by (auto simp: appended_def)
  then have n: "\<not> list_ex is_Yield (appended w wg)" by auto
  have "w' = wg" "out \<noteq> Returns ()" "out = Suspends \<longleftrightarrow> og = Suspends"
    using run g n by (auto simp: connector_eq split: outcome.splits if_splits)
  with l show ?thesis by auto
qed

lemma closed_after_close_all:
  "closed (mem (close_all ((a, b), (c, d)) w)) (receive_addr a)"
  "closed (mem (close_all ((a, b), (c, d)) w)) (send_addr b)"
  "closed (mem (close_all ((a, b), (c, d)) w)) (receive_addr c)"
  "closed (mem (close_all ((a, b), (c, d)) w)) (send_addr d)"
  by (simp_all add: close_all_mem close_send_effect close_receive_effect)

lemma failed_handshake_outcome:
  assumes "memory_streams w = (((cr, cw), (sr, sw)), w2)"
    and "create_initialization_options env server = Inr opts"
    and "ClientSession env cr cw t (mem w2) = (Returns cs, h3)"
    and "session_aenter env cs h3 = (Returns c, h4)"
    and "initialize env c h4 = (Raises e, h5)"
    and "session_aexit env cs (Some e) h5 = (Returns False, h6) \<and> e1 = e \<or>
         session_aexit env cs (Some e) h5 = (Raises e1, h6)"
    and "task_group_aexit env (Some e1) h6 = (Returns False, h7) \<and> e2 = e1 \<or>
         task_group_aexit env (Some e1) h6 = (Raises e2, h7)"
  shows "fst (create_connected_server_and_client_session env server t r body w) = Raises e2"
proof -
  let ?task = "\<lparr>run_server = server, run_read_stream = sr, run_write_stream = sw,
                 run_initialization_options = opts, run_raise_exceptions = r\<rparr>"
  let ?w3 = "w2\<lparr>log := log w2 @ [StartSoon ?task]\<rparr>"
  let ?w4 = "?w3\<lparr>mem := h6, log := log ?w3 @ [NewClientSession cr cw t]\<rparr>"
  have "session_block env cr cw t body ?w3 = (Raises e1, ?w4)"
    using session_block_init_raises [of env cr cw t ?w3 cs h3 c h4 e h5 body] assms(3-6) by auto
  then have "try_finally (session_block env cr cw t body) cancel ?w3
      = (Raises e1, ?w4\<lparr>log := log ?w4 @ [Cancel]\<rparr>)"
    by (simp add: try_finally_cancel)
  then have "fst (async_with (return ()) (\<lambda>exc. await (task_group_aexit env exc)) (\<lambda>g.
                bind (start_soon (Inr ?task)) (\<lambda>u.
                try_finally (session_block env cr cw t body) cancel)) w2) = Raises e2"
    using assms(7) by (auto simp: async_with_def return_def bind_def start_soon_def emit_def await_def)
  then obtain wg where "async_with (return ()) (\<lambda>exc. await (task_group_aexit env exc)) (\<lambda>g.
                bind (start_soon (Inr ?task)) (\<lambda>u.
                try_finally (session_block env cr cw t body) cancel)) w2 = (Raises e2, wg)"
    by (metis prod.collapse)
  then have "connector_generator env server t r (yield_to body) w =
      (Raises e2, close_all ((cr, cw), (sr, sw)) wg)"
    using assms(1,2) by (simp add: generator_eq)
  then show ?thesis
    by (simp add: connector_eq)
qed

subsection \<open>Runs on concrete collaborators\<close>

lemmas eval_defs = create_connected_server_and_client_session_def connector_generator_def
  create_client_server_memory_streams_def memory_streams_def create_memory_object_stream_def
  async_with_def bind_def try_finally_def emit_def await_def return_def start_soon_def cancel_def
  send_aexit_def receive_aexit_def send_aclose_def receive_aclose_def
  start_def empty_heap_def idle_def is_Yield_def Let_def appended_def

lemma responsive_run:
  "fst (create_connected_server_and_client_session responsive ''echo'' None False idle start) = Returns ()"
  "log (snd (create_connected_server_and_client_session responsive ''echo'' None False idle start)) =
     [StartSoon \<lparr>run_server = ''echo'', run_read_stream = MemoryObjectReceiveStream 5 3,
         run_write_stream = MemoryObjectSendStream 1 0, run_initialization_options = ''echo-options'',
         run_raise_exceptions = False\<rparr>,
      NewClientSession (MemoryObjectReceiveStream 2 0) (MemoryObjectSendStream 4 3) None,
      Initialized 0, Yield 0, Cancel,
      Aclose (SendEnd (MemoryObjectSendStream 1 0)), Aclose (ReceiveEnd (MemoryObjectReceiveStream 5 3)),
      Aclose (SendEnd (MemoryObjectSendStream 4 3)), Aclose (ReceiveEnd (MemoryObjectReceiveStream 2 0))]"
  by (simp_all add: eval_defs responsive_def)

lemma stalled_run:
  "fst (create_connected_server_and_client_session stalled ''echo'' (Some 5) False idle start)
     = Raises (ExceptionGroup ''unhandled errors in a TaskGroup'' [Exn ''timeout''])"
  "log (snd (create_connected_server_and_client_session stalled ''echo'' (Some 5) False idle start)) =
     [StartSoon \<lparr>run_server = ''echo'', run_read_stream = MemoryObjectReceiveStream 5 3,
         run_write_stream = MemoryObjectSendStream 1 0, run_initialization_options = ''echo-options'',
         run_raise_exceptions = False\<rparr>,
      NewClientSession (MemoryObjectReceiveStream 2 0) (MemoryObjectSendStream 4 3) (Some 5),
      Cancel,
      Aclose (SendEnd (MemoryObjectSendStream 1 0)), Aclose (ReceiveEnd (MemoryObjectReceiveStream 5 3)),
      Aclose (SendEnd (MemoryObjectSendStream 4 3)), Aclose (ReceiveEnd (MemoryObjectReceiveStream 2 0))]"
  by (simp_all add: eval_defs responsive_def stalled_def)

lemma unconfigured_run:
  "fst (create_connected_server_and_client_session unconfigured ''echo'' None False idle start)
     = Raises (ExceptionGroup ''unhandled errors in a TaskGroup'' [Exn ''no options''])"
  "log (snd (create_connected_server_and_client_session unconfigured ''echo'' None False idle start)) =
     [Aclose (SendEnd (MemoryObjectSendStream 1 0)), Aclose (ReceiveEnd (MemoryObjectReceiveStream 5 3)),
      Aclose (SendEnd (MemoryObjectSendStream 4 3)), Aclose (ReceiveEnd (MemoryObjectReceiveStream 2 0))]"
  by (simp_all add: eval_defs responsive_def unconfigured_def)

lemma start_streams:
  "memory_streams (start :: (nat, string, string, nat) world) =
     (((MemoryObjectReceiveStream 2 0, MemoryObjectSendStream 4 3),
       (MemoryObjectReceiveStream 5 3, MemoryObjectSendStream 1 0)),
      snd (memory_streams (start :: (nat, string, string, nat) world)))"
  by (simp add: memory_streams_eq start_def empty_heap_def Let_def)

subsection \<open>Schedules of stream operations\<close>

lemma step_buffer:
  "step x h = (d, h1) \<Longrightarrow>
     buffer (states h q) @ sent_to q [d] = delivered_from q [d] @ buffer (states h1 q)"
  by (cases x) (auto simp: send_nowait_def receive_nowait_def Let_def split: if_splits list.splits)

lemma sent_to_Cons: "sent_to q (d # ds) = sent_to q [d] @ sent_to q ds"
  by (cases d) auto

lemma delivered_from_Cons: "delivered_from q (d # ds) = delivered_from q [d] @ delivered_from q ds"
  by (cases d) auto

lemma run_buffer:
  "run ops h = (tr, h') \<Longrightarrow>
     buffer (states h q) @ sent_to q tr = delivered_from q tr @ buffer (states h' q)"
proof (induction ops arbitrary: h tr h')
  case Nil
  then show ?case by simp
next
  case (Cons x xs)
  obtain d h1 where s: "step x h = (d, h1)" by (cases "step x h")
  obtain ds h2 where r: "run xs h1 = (ds, h2)" by (cases "run xs h1")
  from Cons.prems s r have tr: "tr = d # ds" and h': "h2 = h'" by auto
  have "buffer (states h q) @ sent_to q (d # ds) = (buffer (states h q) @ sent_to q [d]) @ sent_to q ds"
    by (subst sent_to_Cons) simp
  also have "\<dots> = (delivered_from q [d] @ buffer (states h1 q)) @ sent_to q ds"
    using step_buffer [OF s] by simp
  also have "\<dots> = delivered_from q [d] @ delivered_from q ds @ buffer (states h2 q)"
    using Cons.IH [OF r] by simp
  also have "\<dots> = delivered_from q (d # ds) @ buffer (states h2 q)"
    by (subst (2) delivered_from_Cons) simp
  finally show ?case by (simp add: tr h')
qed


lemma step_frame:
  "step x h = (d, h1) \<Longrightarrow>
     closed h1 = closed h \<and> lim h1 = lim h \<and>
     max_buffer_size (states h1 q) = max_buffer_size (states h q) \<and>
     open_send_channels (states h1 q) = open_send_channels (states h q) \<and>
     open_receive_channels (states h1 q) = open_receive_channels (states h q)"
  by (cases x) (auto simp: send_nowait_def receive_nowait_def Let_def split: if_splits list.splits)

lemma step_bound:
  "step x h = (d, h1) \<Longrightarrow> length (buffer (states h q)) \<le> max_buffer_size (states h q)
     \<Longrightarrow> length (buffer (states h1 q)) \<le> max_buffer_size (states h q)"
  by (cases x) (auto simp: send_nowait_def receive_nowait_def Let_def split: if_splits list.splits)

lemma run_frame:
  "run ops h = (tr, h') \<Longrightarrow>
     closed h' = closed h \<and> lim h' = lim h \<and>
     max_buffer_size (states h' q) = max_buffer_size (states h q) \<and>
     open_send_channels (states h' q) = open_send_channels (states h q) \<and>
     open_receive_channels (states h' q) = open_receive_channels (states h q)"
proof (induction ops arbitrary: h tr h')
  case Nil
  then show ?case by simp
next
  case (Cons x xs)
  obtain d h1 where s: "step x h = (d, h1)" by (cases "step x h")
  obtain ds h2 where r: "run xs h1 = (ds, h2)" by (cases "run xs h1")
  from Cons.prems s r have h': "h2 = h'" by auto
  show ?case using step_frame [OF s, of q] Cons.IH [OF r [unfolded h']] by simp
qed

lemma run_bound:
  "run ops h = (tr, h') \<Longrightarrow> length (buffer (states h q)) \<le> max_buffer_size (states h q)
     \<Longrightarrow> length (buffer (states h' q)) \<le> max_buffer_size (states h q)"
proof (induction ops arbitrary: h tr h')
  case Nil
  then show ?case by simp
next
  case (Cons x xs)
  obtain d h1 where s: "step x h = (d, h1)" by (cases "step x h")
  obtain ds h2 where r: "run xs h1 = (ds, h2)" by (cases "run xs h1")
  from Cons.prems s r have h': "h2 = h'" by auto
  have m: "max_buffer_size (states h1 q) = max_buffer_size (states h q)"
    using step_frame [OF s, of q] by simp
  have "length (buffer (states h1 q)) \<le> max_buffer_size (states h1 q)"
    using step_bound [OF s Cons.prems(2)] m by simp
  from Cons.IH [OF r [unfolded h'] this] show ?case by (simp add: m)
qed


lemma receive_nowait_open:
  "\<not> closed h (receive_addr r) \<Longrightarrow> open_send_channels (states h (receive_state r)) \<noteq> 0 \<Longrightarrow>
     fst (receive_nowait r h) =
       (case buffer (states h (receive_state r)) of [] \<Rightarrow> Inl WouldBlock | x # xs \<Rightarrow> Inr x)"
  by (auto simp: receive_nowait_def Let_def split: list.splits)

lemma fifo_one_direction:
  assumes r: "run ops h0 = (tr, h)"
    and "buffer (states h0 (receive_state rs)) = []"
    and "max_buffer_size (states h0 (receive_state rs)) = 1"
    and "\<not> closed h0 (receive_addr rs)"
    and "open_send_channels (states h0 (receive_state rs)) = 1"
  shows "sent_to (receive_state rs) tr =
           delivered_from (receive_state rs) tr @ buffer (states h (receive_state rs)) \<and>
         length (buffer (states h (receive_state rs))) \<le> 1 \<and>
         fst (receive_nowait rs h) =
           (case buffer (states h (receive_state rs)) of [] \<Rightarrow> Inl WouldBlock | x # xs \<Rightarrow> Inr x)"
proof -
  from run_buffer [OF r, of "receive_state rs"] assms(2)
  have a: "sent_to (receive_state rs) tr =
           delivered_from (receive_state rs) tr @ buffer (states h (receive_state rs))" by simp
  from run_bound [OF r, of "receive_state rs"] assms(2,3)
  have b: "length (buffer (states h (receive_state rs))) \<le> 1" by simp
  from run_frame [OF r, of "receive_state rs"] assms(4,5)
  have "\<not> closed h (receive_addr rs)" "open_send_channels (states h (receive_state rs)) \<noteq> 0" by simp_all
  from receive_nowait_open [OF this] a b show ?thesis by simp
qed

lemma send_receive_other_queue:
  "send_state s \<noteq> receive_state r \<Longrightarrow>
     fst (receive_nowait r (snd (send_nowait s m h))) = fst (receive_nowait r h)"
  by (auto simp: send_nowait_def receive_nowait_def Let_def split: list.splits)

subsection \<open>The factory\<close>

text \<open>
  C6. The factory has no argument besides the world it runs in. Whatever that world is, it
  hands its caller two queues that are empty, have one open endpoint on each side and a
  capacity of exactly one item, one queue per direction.
\<close>

theorem capacity_is_one:
  "case memory_streams w of (((client_read, client_write), (server_read, server_write)), w2) \<Rightarrow>
     create_client_server_memory_streams yield w =
       (case yield ((client_read, client_write), (server_read, server_write)) w2 of
          (Suspends, wb) \<Rightarrow> (Suspends, wb)
        | (r, wb) \<Rightarrow> (r, close_all ((client_read, client_write), (server_read, server_write)) wb)) \<and>
     states (mem w2) (send_state client_write) =
       \<lparr>max_buffer_size = 1, buffer = [], open_send_channels = 1, open_receive_channels = 1\<rparr> \<and>
     states (mem w2) (send_state server_write) =
       \<lparr>max_buffer_size = 1, buffer = [], open_send_channels = 1, open_receive_channels = 1\<rparr> \<and>
     send_state client_write \<noteq> send_state server_write"
proof -
  show ?thesis
    by (simp add: factory_eq split: prod.splits)
       (auto simp: memory_streams_eq create_memory_object_stream_def Let_def)
qed

text \<open>
  C1. The two endpoint pairs are mirrored over two distinct queues: the client's send endpoint
  and the server's receive endpoint are the ends of one queue, the server's send endpoint
  and the client's receive endpoint the ends of the other. A message written on one side
  right after creation is the message the other side reads, and in every later heap a
  write that succeeds appends to the very buffer the peer's read takes its head from.
\<close>

theorem endpoint_pairs_are_mirrored:
  "case memory_streams w of (((client_read, client_write), (server_read, server_write)), w2) \<Rightarrow>
     send_state client_write = receive_state server_read \<and>
     send_state server_write = receive_state client_read \<and>
     receive_state server_read \<noteq> receive_state client_read \<and>
     fst (send_nowait client_write m (mem w2)) = Inr () \<and>
     fst (receive_nowait server_read (snd (send_nowait client_write m (mem w2)))) = Inr m \<and>
     fst (send_nowait server_write m (mem w2)) = Inr () \<and>
     fst (receive_nowait client_read (snd (send_nowait server_write m (mem w2)))) = Inr m \<and>
     (\<forall>h h'. send_nowait client_write m h = (Inr (), h') \<longrightarrow>
        buffer (states h' (receive_state server_read)) = buffer (states h (receive_state server_read)) @ [m]) \<and>
     (\<forall>h h'. send_nowait server_write m h = (Inr (), h') \<longrightarrow>
        buffer (states h' (receive_state client_read)) = buffer (states h (receive_state client_read)) @ [m]) \<and>
     (\<forall>h h' x. receive_nowait server_read h = (Inr x, h') \<longrightarrow>
        buffer (states h (send_state client_write)) = x # buffer (states h' (send_state client_write))) \<and>
     (\<forall>h h' x. receive_nowait client_read h = (Inr x, h') \<longrightarrow>
        buffer (states h (send_state server_write)) = x # buffer (states h' (send_state server_write)))"
proof -
  have a: "fst (send_nowait s m (mem (snd (memory_streams w)))) = Inr () \<and>
        fst (receive_nowait r (snd (send_nowait s m (mem (snd (memory_streams w)))))) = Inr m"
    if "receive_state r = send_state s" "send_state s = lim (mem w) \<or> send_state s = lim (mem w) + 3"
      "send_addr s \<in> {lim (mem w) + 1, lim (mem w) + 4}" "receive_addr r \<in> {lim (mem w) + 2, lim (mem w) + 5}"
    for s r
    using that by (intro conjI send_then_receive) (auto simp: memory_streams_mem Let_def)
  show ?thesis
    using a [of "MemoryObjectReceiveStream (lim (mem w) + 5) (lim (mem w) + 3)" "MemoryObjectSendStream (lim (mem w) + 4) (lim (mem w) + 3)"]
      a [of "MemoryObjectReceiveStream (lim (mem w) + 2) (lim (mem w))" "MemoryObjectSendStream (lim (mem w) + 1) (lim (mem w))"]
    by (auto simp: memory_streams_eq Let_def dest: send_nowait_buffer receive_nowait_buffer)
qed


theorem endpoint_pairs_are_mirrored_witness:
  "send_nowait (MemoryObjectSendStream 4 3) (7::nat)
       (mem (snd (memory_streams (start :: (nat, unit, unit, unit) world)))) =
     (Inr (), snd (send_nowait (MemoryObjectSendStream 4 3) 7
       (mem (snd (memory_streams (start :: (nat, unit, unit, unit) world)))))) \<and>
   buffer (states (snd (send_nowait (MemoryObjectSendStream 4 3) (7::nat)
       (mem (snd (memory_streams (start :: (nat, unit, unit, unit) world)))))) 3) = [7] \<and>
   fst (receive_nowait (MemoryObjectReceiveStream 5 3) (snd (send_nowait (MemoryObjectSendStream 4 3) (7::nat)
       (mem (snd (memory_streams (start :: (nat, unit, unit, unit) world))))))) = Inr 7"
  using endpoint_pairs_are_mirrored [where w = "start :: (nat, unit, unit, unit) world" and m = 7]
  by (simp add: memory_streams_eq start_def empty_heap_def create_memory_object_stream_def
      send_nowait_def receive_nowait_def Let_def)

text \<open>
  C4. Whenever the code inside the factory's scope comes to an end, by returning or by raising
  (a cancellation is an exception raised in it), the factory closes its four endpoints and
  passes the outcome on unchanged. It makes exactly four close calls, on four different
  endpoints, innermost first. Afterwards every endpoint is closed, and each endpoint that was
  still open gave up its channel of its queue exactly once. The buffers play no part: whatever
  they hold when the scope ends, they hold afterwards.
\<close>

theorem endpoints_closed_on_every_exit:
  assumes "memory_streams w = (((client_read, client_write), (server_read, server_write)), w2)"
    and "yield ((client_read, client_write), (server_read, server_write)) w2 = (rb, wb)"
    and "create_client_server_memory_streams yield w = (out, w')"
    and "rb \<noteq> Suspends"
  shows "out = rb \<and>
        log w' = log wb @ [Aclose (SendEnd server_write), Aclose (ReceiveEnd server_read),
                           Aclose (SendEnd client_write), Aclose (ReceiveEnd client_read)] \<and>
        distinct [SendEnd server_write, ReceiveEnd server_read,
                  SendEnd client_write, ReceiveEnd client_read] \<and>
        closed (mem w') (send_addr server_write) \<and> closed (mem w') (receive_addr server_read) \<and>
        closed (mem w') (send_addr client_write) \<and> closed (mem w') (receive_addr client_read) \<and>
        open_send_channels (states (mem w') (send_state client_write)) =
          open_send_channels (states (mem wb) (send_state client_write))
            - (if closed (mem wb) (send_addr client_write) then 0 else 1) \<and>
        open_receive_channels (states (mem w') (receive_state server_read)) =
          open_receive_channels (states (mem wb) (receive_state server_read))
            - (if closed (mem wb) (receive_addr server_read) then 0 else 1) \<and>
        open_send_channels (states (mem w') (send_state server_write)) =
          open_send_channels (states (mem wb) (send_state server_write))
            - (if closed (mem wb) (send_addr server_write) then 0 else 1) \<and>
        open_receive_channels (states (mem w') (receive_state client_read)) =
          open_receive_channels (states (mem wb) (receive_state client_read))
            - (if closed (mem wb) (receive_addr client_read) then 0 else 1) \<and>
        (\<forall>q. buffer (states (mem w') q) = buffer (states (mem wb) q))"
proof -
  let ?q = "lim (mem w)"
  have n: "out = rb" "w' = close_all ((client_read, client_write), (server_read, server_write)) wb"
    using assms by (cases rb; simp add: factory_eq)+
  have d: "client_read = MemoryObjectReceiveStream (?q + 2) ?q"
    "client_write = MemoryObjectSendStream (?q + 4) (?q + 3)"
    "server_read = MemoryObjectReceiveStream (?q + 5) (?q + 3)"
    "server_write = MemoryObjectSendStream (?q + 1) ?q"
    using assms(1) by (auto simp: memory_streams_eq Let_def)
  show ?thesis
    unfolding n d
    by (auto simp: close_all_log closes_def close_all_mem close_send_effect close_receive_effect)
qed

theorem endpoints_closed_on_every_exit_witness:
  "fst (create_client_server_memory_streams
          (\<lambda>streams. await (\<lambda>h. (Raises (Exn ''cancelled''),
                                  snd (send_nowait (snd (fst streams)) (7::nat) h))))
          (start :: (nat, string, string, nat) world)) = Raises (Exn ''cancelled'') \<and>
   buffer (states (mem (snd (create_client_server_memory_streams
          (\<lambda>streams. await (\<lambda>h. (Raises (Exn ''cancelled'') :: (string, unit) outcome,
                                  snd (send_nowait (snd (fst streams)) (7::nat) h))))
          (start :: (nat, string, string, nat) world)))) 3) = [7] \<and>
   closed (mem (snd (create_client_server_memory_streams
          (\<lambda>streams. await (\<lambda>h. (Raises (Exn ''cancelled'') :: (string, unit) outcome,
                                  snd (send_nowait (snd (fst streams)) (7::nat) h))))
          (start :: (nat, string, string, nat) world)))) 4"
proof -
  let ?y = "\<lambda>streams :: MessageStream \<times> MessageStream.
     await (\<lambda>h. (Raises (Exn ''cancelled'') :: (string, unit) outcome,
                   snd (send_nowait (snd (fst streams)) (7::nat) h)))
       :: (nat, string, string, nat) world \<Rightarrow> _"
  let ?w2 = "snd (memory_streams (start :: (nat, string, string, nat) world))"
  let ?streams = "((MemoryObjectReceiveStream 2 0, MemoryObjectSendStream 4 3),
       (MemoryObjectReceiveStream 5 3, MemoryObjectSendStream 1 0))"
  let ?run = "create_client_server_memory_streams ?y start"
  have y: "?y ?streams ?w2 = (Raises (Exn ''cancelled''), snd (?y ?streams ?w2))"
    by (simp add: await_def split: prod.splits)
  have run: "?run = (fst ?run, snd ?run)" by simp
  have b: "buffer (states (mem (snd (?y ?streams ?w2))) 3) = [7]"
    by (simp add: await_def memory_streams_mem send_nowait_def Let_def start_def empty_heap_def
        split: prod.splits)
  from endpoints_closed_on_every_exit [OF start_streams y run] b
  show ?thesis by simp
qed

text \<open>
  C7. Take any schedule of writes and reads on any endpoints, run from the moment the factory
  hands out its streams, with no endpoint closed. For each direction, the items the queue
  accepted are, in order, the items its receive endpoint has delivered followed by what is
  still buffered, which is at most one item: nothing is reordered, repeated or dropped, and a
  delivered item has left the buffer, so no second read returns it. The next read on the
  peer's endpoint returns the oldest buffered item, or would block when there is none.
\<close>

theorem fifo_delivery:
  "case memory_streams w of (((client_read, client_write), (server_read, server_write)), w2) \<Rightarrow>
   (case run ops (mem w2) of (tr, h) \<Rightarrow>
      sent_to (send_state client_write) tr =
        delivered_from (receive_state server_read) tr @ buffer (states h (receive_state server_read)) \<and>
      length (buffer (states h (receive_state server_read))) \<le> 1 \<and>
      fst (receive_nowait server_read h) =
        (case buffer (states h (receive_state server_read)) of [] \<Rightarrow> Inl WouldBlock | x # xs \<Rightarrow> Inr x) \<and>
      sent_to (send_state server_write) tr =
        delivered_from (receive_state client_read) tr @ buffer (states h (receive_state client_read)) \<and>
      length (buffer (states h (receive_state client_read))) \<le> 1 \<and>
      fst (receive_nowait client_read h) =
        (case buffer (states h (receive_state client_read)) of [] \<Rightarrow> Inl WouldBlock | x # xs \<Rightarrow> Inr x))"
proof -
  let ?q = "lim (mem w)"
  let ?h0 = "mem (snd (memory_streams w))"
  obtain tr h where r: "run ops ?h0 = (tr, h)" by (cases "run ops ?h0")
  have a: "sent_to (receive_state rs) tr =
           delivered_from (receive_state rs) tr @ buffer (states h (receive_state rs)) \<and>
         length (buffer (states h (receive_state rs))) \<le> 1 \<and>
         fst (receive_nowait rs h) =
           (case buffer (states h (receive_state rs)) of [] \<Rightarrow> Inl WouldBlock | x # xs \<Rightarrow> Inr x)"
    if "rs = MemoryObjectReceiveStream (?q + 5) (?q + 3) \<or> rs = MemoryObjectReceiveStream (?q + 2) ?q" for rs
    using that by (intro fifo_one_direction [OF r]) (auto simp: memory_streams_mem Let_def)
  show ?thesis
    using a [of "MemoryObjectReceiveStream (?q + 5) (?q + 3)"] a [of "MemoryObjectReceiveStream (?q + 2) ?q"] r
    by (simp add: memory_streams_eq Let_def)
qed

text \<open>
  C9. Two runs of lines 34 to 42, the second in any heap whose allocation limit is not below
  the one the first run left, use disjoint queues and disjoint stream objects. A write on a
  send endpoint of one invocation does not change what a read on a receive endpoint of the
  other invocation returns, in any heap and in both directions.
\<close>

theorem invocations_are_disjoint:
  assumes "memory_streams w = (((cr1, cw1), (sr1, sw1)), w1)"
    and "lim (mem w1) \<le> lim (mem v)"
    and "memory_streams v = (((cr2, cw2), (sr2, sw2)), v2)"
  shows "{send_state cw1, send_state sw1, receive_state cr1, receive_state sr1} \<inter>
           {send_state cw2, send_state sw2, receive_state cr2, receive_state sr2} = {} \<and>
         {send_addr cw1, send_addr sw1, receive_addr cr1, receive_addr sr1} \<inter>
           {send_addr cw2, send_addr sw2, receive_addr cr2, receive_addr sr2} = {} \<and>
         (\<forall>s \<in> {cw1, sw1}. \<forall>r \<in> {cr2, sr2}. \<forall>m h.
            fst (receive_nowait r (snd (send_nowait s m h))) = fst (receive_nowait r h)) \<and>
         (\<forall>s \<in> {cw2, sw2}. \<forall>r \<in> {cr1, sr1}. \<forall>m h.
            fst (receive_nowait r (snd (send_nowait s m h))) = fst (receive_nowait r h))"
proof -
  have l: "lim (mem w1) = lim (mem w) + 6"
    using assms(1) by (auto simp: memory_streams_eq create_memory_object_stream_def Let_def)
  have q: "{send_state cw1, send_state sw1, receive_state cr1, receive_state sr1} \<inter>
           {send_state cw2, send_state sw2, receive_state cr2, receive_state sr2} = {}"
    using assms l by (auto simp: memory_streams_eq Let_def)
  have a: "{send_addr cw1, send_addr sw1, receive_addr cr1, receive_addr sr1} \<inter>
           {send_addr cw2, send_addr sw2, receive_addr cr2, receive_addr sr2} = {}"
    using assms l by (auto simp: memory_streams_eq Let_def)
  from q show ?thesis
    using a by (auto intro!: send_receive_other_queue)
qed

theorem invocations_are_disjoint_witness:
  "lim (mem (snd (memory_streams (start :: (nat, string, string, nat) world)))) \<le>
     lim (mem (snd (memory_streams (start :: (nat, string, string, nat) world)))) \<and>
   memory_streams (snd (memory_streams (start :: (nat, string, string, nat) world))) =
     (((MemoryObjectReceiveStream 8 6, MemoryObjectSendStream 10 9),
       (MemoryObjectReceiveStream 11 9, MemoryObjectSendStream 7 6)),
      snd (memory_streams (snd (memory_streams (start :: (nat, string, string, nat) world))))) \<and>
   {3, 0} \<inter> {9, 6 :: nat} = {} \<and>
   (\<forall>m h. fst (receive_nowait (MemoryObjectReceiveStream 11 9)
              (snd (send_nowait (MemoryObjectSendStream 4 3) (m::nat) h))) =
          fst (receive_nowait (MemoryObjectReceiveStream 11 9) h))"
proof -
  let ?w1 = "snd (memory_streams (start :: (nat, string, string, nat) world))"
  have l: "lim (mem ?w1) \<le> lim (mem ?w1)" by simp
  have s2: "memory_streams ?w1 =
     (((MemoryObjectReceiveStream 8 6, MemoryObjectSendStream 10 9),
       (MemoryObjectReceiveStream 11 9, MemoryObjectSendStream 7 6)),
      snd (memory_streams ?w1))"
    by (simp add: memory_streams_eq create_memory_object_stream_def start_def empty_heap_def Let_def)
  from invocations_are_disjoint [OF start_streams l s2]
  have "\<forall>s \<in> {MemoryObjectSendStream 4 3, MemoryObjectSendStream 1 0}.
          \<forall>r \<in> {MemoryObjectReceiveStream 8 6, MemoryObjectReceiveStream 11 9}. \<forall>(m::nat) h.
            fst (receive_nowait r (snd (send_nowait s m h))) = fst (receive_nowait r h)"
    by (elim conjE)
  then have "\<forall>(m::nat) h. fst (receive_nowait (MemoryObjectReceiveStream 11 9)
              (snd (send_nowait (MemoryObjectSendStream 4 3) m h))) =
          fst (receive_nowait (MemoryObjectReceiveStream 11 9) h)"
    by blast
  with l s2 show ?thesis by simp
qed

subsection \<open>The connector\<close>

text \<open>
  C2. Whenever the connector hands a session to its caller, that session is the one the
  client session's entry returned and its \<^verbatim>\<open>initialize\<close> has returned without an
  exception: the construction, the entry and the handshake all completed, the handshake's
  return is logged immediately before the yield, and the connector yields only once.
\<close>

theorem session_is_initialized_before_it_is_yielded:
  assumes "memory_streams w = (((client_read, client_write), (server_read, server_write)), w2)"
    and "create_connected_server_and_client_session env server t r body w = (out, w')"
    and "Yield c \<in> set (appended w w')"
  shows "\<exists>cs h3 h4 h5 task post.
           ClientSession env client_read client_write t (mem w2) = (Returns cs, h3) \<and>
           session_aenter env cs h3 = (Returns c, h4) \<and>
           initialize env c h4 = (Returns (), h5) \<and>
           appended w w' = [StartSoon task, NewClientSession client_read client_write t,
                            Initialized c, Yield c] @ post \<and>
           \<not> list_ex is_Yield post"
proof -
  obtain opts where opts: "create_initialization_options env server = Inr opts"
  proof (cases "create_initialization_options env server")
    case (Inl e)
    from connector_not_started [OF assms(1) Inl assms(2)] assms(3)
    have False by (cases "out = Suspends") auto
    then show ?thesis ..
  next
    case (Inr opts)
    then show ?thesis by (rule that)
  qed
  from connector_shape [OF assms(1) opts assms(2)] obtain mid tl where
    a: "appended w w' = StartSoon \<lparr>run_server = server, run_read_stream = server_read,
          run_write_stream = server_write,
          run_initialization_options = opts,
          run_raise_exceptions = r\<rparr> # NewClientSession client_read client_write t # mid @ tl"
    and m: "mid = [] \<or> (\<exists>cs c h3 h4 h5. mid = [Initialized c, Yield c] \<and>
              ClientSession env client_read client_write t (mem w2) = (Returns cs, h3) \<and>
              session_aenter env cs h3 = (Returns c, h4) \<and>
              initialize env c h4 = (Returns (), h5))"
    and t: "tl = [] \<or> tl = [Cancel] \<or>
            tl = Cancel # closes ((client_read, client_write), (server_read, server_write))"
    by blast
  have nt: "\<not> list_ex is_Yield tl" "Yield c \<notin> set tl"
    using t by (auto simp: is_Yield_def)
  with assms(3) a have "mid \<noteq> []" by auto
  with m obtain cs c' h3 h4 h5 where mid: "mid = [Initialized c', Yield c']"
    and run: "ClientSession env client_read client_write t (mem w2) = (Returns cs, h3)"
      "session_aenter env cs h3 = (Returns c', h4)" "initialize env c' h4 = (Returns (), h5)"
    by blast
  from assms(3) a nt mid have "c' = c" by auto
  with a mid run nt show ?thesis by auto
qed

theorem session_is_initialized_before_it_is_yielded_witness:
  "Yield 0 \<in> set (appended start
      (snd (create_connected_server_and_client_session responsive ''echo'' None False idle start))) \<and>
   (\<exists>cs h3 h4 h5 task post.
      ClientSession responsive (MemoryObjectReceiveStream 2 0) (MemoryObjectSendStream 4 3) None
        (mem (snd (memory_streams (start :: (nat, string, string, nat) world)))) = (Returns cs, h3) \<and>
      session_aenter responsive cs h3 = (Returns 0, h4) \<and>
      initialize responsive 0 h4 = (Returns (), h5) \<and>
      appended start
        (snd (create_connected_server_and_client_session responsive ''echo'' None False idle start)) =
        [StartSoon task, NewClientSession (MemoryObjectReceiveStream 2 0) (MemoryObjectSendStream 4 3) None,
         Initialized 0, Yield 0] @ post \<and>
      \<not> list_ex is_Yield post)"
proof -
  let ?run = "create_connected_server_and_client_session responsive ''echo'' None False idle start"
  have run: "?run = (fst ?run, snd ?run)" by simp
  have y: "Yield 0 \<in> set (appended start (snd ?run))"
    by (simp add: appended_def responsive_run) (simp add: start_def)
  from session_is_initialized_before_it_is_yielded [OF start_streams run y] y
  show ?thesis by blast
qed

text \<open>
  C3, as the code has it. Take a run of the connector that comes back to its caller, with a
  return or with an exception (of the body, of the session's construction, entry or
  handshake, or a cancellation raised in any of them). When the server's
  \<^verbatim>\<open>create_initialization_options\<close> returned, the server task was started and the
  scope of the task group has been cancelled exactly once, after that start. When it raised,
  \<^verbatim>\<open>start_soon\<close> raised before the \<^verbatim>\<open>try\<close> of line 78: no task was started and
  the connector makes no cancel call.
\<close>

theorem started_server_task_is_cancelled_on_every_exit:
  assumes "create_connected_server_and_client_session env server t r body w = (out, w')"
    and "out \<noteq> Suspends"
  shows "case create_initialization_options env server of
           Inr options \<Rightarrow>
             (\<exists>pre post task. appended w w' = pre @ Cancel # post \<and>
                StartSoon task \<in> set pre \<and> Cancel \<notin> set pre \<and> Cancel \<notin> set post)
         | Inl e \<Rightarrow>
             filter is_StartSoon (appended w w') = [] \<and> Cancel \<notin> set (appended w w')"
proof -
  obtain cr cw sr sw w2 where ms: "memory_streams w = (((cr, cw), (sr, sw)), w2)"
    by (simp add: memory_streams_eq Let_def)
  show ?thesis
  proof (cases "create_initialization_options env server")
    case (Inl e)
    from connector_not_started [OF ms Inl assms(1)] assms(2)
    have "appended w w' = closes ((cr, cw), (sr, sw))" by simp
    then show ?thesis using Inl by (simp add: closes_def is_StartSoon_def)
  next
    case (Inr opts)
    let ?task = "\<lparr>run_server = server, run_read_stream = sr, run_write_stream = sw,
          run_initialization_options = opts, run_raise_exceptions = r\<rparr>"
    from connector_shape [OF ms Inr assms(1)] obtain mid tl where
      a0: "appended w w' = StartSoon ?task # NewClientSession cr cw t # mid @ tl"
      and m0: "mid = [] \<or> (\<exists>cs c h3 h4 h5. mid = [Initialized c, Yield c] \<and>
              ClientSession env cr cw t (mem w2) = (Returns cs, h3) \<and>
              session_aenter env cs h3 = (Returns c, h4) \<and>
              initialize env c h4 = (Returns (), h5))"
      and x: "out \<noteq> Suspends \<longrightarrow> tl = Cancel # closes ((cr, cw), (sr, sw))
              \<and> (\<exists>wb. w' = close_all ((cr, cw), (sr, sw)) wb)"
      by blast
    from x assms(2) have tl: "tl = Cancel # closes ((cr, cw), (sr, sw))" by simp
    have a: "appended w w' = (StartSoon ?task # NewClientSession cr cw t # mid)
          @ Cancel # closes ((cr, cw), (sr, sw))"
      using a0 tl by simp
    have m: "mid = [] \<or> (\<exists>c. mid = [Initialized c, Yield c])" using m0 by blast
    from m have "Cancel \<notin> set mid" by auto
    then have "\<exists>pre post task. appended w w' = pre @ Cancel # post \<and>
                StartSoon task \<in> set pre \<and> Cancel \<notin> set pre \<and> Cancel \<notin> set post"
      using a
      by (intro exI [of _ "StartSoon ?task # NewClientSession cr cw t # mid"]
          exI [of _ "closes ((cr, cw), (sr, sw))"] exI [of _ ?task]) simp
    then show ?thesis using Inr by simp
  qed
qed

theorem started_server_task_is_cancelled_on_every_exit_witness:
  "fst (create_connected_server_and_client_session responsive ''echo'' None False idle start) \<noteq> Suspends \<and>
   create_initialization_options responsive ''echo'' = Inr ''echo-options'' \<and>
   (\<exists>pre post task. appended start
        (snd (create_connected_server_and_client_session responsive ''echo'' None False idle start)) =
        pre @ Cancel # post \<and>
      StartSoon task \<in> set pre \<and> Cancel \<notin> set pre \<and> Cancel \<notin> set post)"
proof -
  let ?run = "create_connected_server_and_client_session responsive ''echo'' None False idle start"
  have run: "?run = (fst ?run, snd ?run)" by simp
  have n: "fst ?run \<noteq> Suspends" by (simp add: responsive_run)
  have o: "create_initialization_options responsive ''echo'' = Inr ''echo-options''"
    by (simp add: responsive_def)
  from started_server_task_is_cancelled_on_every_exit [OF run n] n o show ?thesis by simp
qed

text \<open>
  C3 as stated fails: with a server whose \<^verbatim>\<open>create_initialization_options\<close> raises, the
  connector comes back to its caller and has made no cancel call.
\<close>

theorem server_task_is_cancelled_on_every_exit_counterexample:
  "fst (create_connected_server_and_client_session unconfigured ''echo'' None False idle start) \<noteq> Suspends \<and>
   Cancel \<notin> set (appended start
     (snd (create_connected_server_and_client_session unconfigured ''echo'' None False idle start)))"
  by (simp add: unconfigured_run appended_def) (simp add: start_def)

text \<open>
  C5, as the code has it. When the server task is started, the session is constructed and
  entered and its handshake raises, the connector never yields and never returns normally. If
  it comes back to its caller at all, it raises, and it has made exactly these calls: start
  the server task, construct the session, cancel the task group, close the four endpoints;
  and the four endpoints are closed. The exception the caller gets is the one the exits of
  the session and of the task group let out for the handshake's failure: the failure itself
  where an exit passes it on, and the exception an exit raises in its place where it raises
  one, as a task group does that wraps the failure in a group.
\<close>

theorem failed_handshake_never_yields_and_cleans_up:
  assumes "memory_streams w = (((client_read, client_write), (server_read, server_write)), w2)"
    and "create_initialization_options env server = Inr options"
    and "ClientSession env client_read client_write t (mem w2) = (Returns cs, h3)"
    and "session_aenter env cs h3 = (Returns c, h4)"
    and "initialize env c h4 = (Raises e, h5)"
    and "create_connected_server_and_client_session env server t r body w = (out, w')"
  shows "\<not> list_ex is_Yield (appended w w') \<and>
         out \<noteq> Returns () \<and>
         (out \<noteq> Suspends \<longrightarrow>
            (\<exists>f. out = Raises f) \<and>
            (\<exists>task. appended w w' =
               [StartSoon task, NewClientSession client_read client_write t, Cancel,
                Aclose (SendEnd server_write), Aclose (ReceiveEnd server_read),
                Aclose (SendEnd client_write), Aclose (ReceiveEnd client_read)]) \<and>
            closed (mem w') (send_addr server_write) \<and> closed (mem w') (receive_addr server_read) \<and>
            closed (mem w') (send_addr client_write) \<and> closed (mem w') (receive_addr client_read)) \<and>
         (\<forall>e1 e2 h6 h7.
            (session_aexit env cs (Some e) h5 = (Returns False, h6) \<and> e1 = e \<or>
             session_aexit env cs (Some e) h5 = (Raises e1, h6)) \<longrightarrow>
            (task_group_aexit env (Some e1) h6 = (Returns False, h7) \<and> e2 = e1 \<or>
             task_group_aexit env (Some e1) h6 = (Raises e2, h7)) \<longrightarrow>
            out = Raises e2)"
proof -
  from connector_shape [OF assms(1,2,6)] obtain mid tl where
    a: "appended w w' = StartSoon \<lparr>run_server = server, run_read_stream = server_read,
          run_write_stream = server_write,
          run_initialization_options = options,
          run_raise_exceptions = r\<rparr> # NewClientSession client_read client_write t # mid @ tl"
    and m: "mid = [] \<or> (\<exists>cs c h3 h4 h5. mid = [Initialized c, Yield c] \<and>
              ClientSession env client_read client_write t (mem w2) = (Returns cs, h3) \<and>
              session_aenter env cs h3 = (Returns c, h4) \<and>
              initialize env c h4 = (Returns (), h5))"
    and t: "tl = [] \<or> tl = [Cancel] \<or>
            tl = Cancel # closes ((client_read, client_write), (server_read, server_write))"
    and x: "out \<noteq> Suspends \<longrightarrow>
              tl = Cancel # closes ((client_read, client_write), (server_read, server_write))
              \<and> (\<exists>wb. w' = close_all ((client_read, client_write), (server_read, server_write)) wb)"
    and y: "out = Returns () \<longrightarrow> mid \<noteq> []"
    by blast
  have mid: "mid = []" using m assms(3-5) by auto
  have 1: "\<not> list_ex is_Yield (appended w w')"
    using a t mid by (auto simp: is_Yield_def)
  have 2: "out \<noteq> Returns ()" using y mid by simp
  have 3: "\<exists>task. appended w w' =
               [StartSoon task, NewClientSession client_read client_write t, Cancel,
                Aclose (SendEnd server_write), Aclose (ReceiveEnd server_read),
                Aclose (SendEnd client_write), Aclose (ReceiveEnd client_read)]"
    if "out \<noteq> Suspends"
    using that x a mid by (simp add: closes_def)
  have 4: "closed (mem w') (send_addr server_write) \<and> closed (mem w') (receive_addr server_read) \<and>
            closed (mem w') (send_addr client_write) \<and> closed (mem w') (receive_addr client_read)"
    if "out \<noteq> Suspends"
    using that x by (auto simp: closed_after_close_all)
  have 5: "out = Raises e2"
    if "session_aexit env cs (Some e) h5 = (Returns False, h6) \<and> e1 = e \<or>
        session_aexit env cs (Some e) h5 = (Raises e1, h6)"
      "task_group_aexit env (Some e1) h6 = (Returns False, h7) \<and> e2 = e1 \<or>
       task_group_aexit env (Some e1) h6 = (Raises e2, h7)" for e1 e2 h6 h7
    using failed_handshake_outcome [OF assms(1-5) that, of r body] assms(6) by simp
  have 6: "\<exists>f. out = Raises f" if "out \<noteq> Suspends"
    using that 2 by (cases out) auto
  from 1 2 3 4 5 6 show ?thesis by blast
qed

theorem failed_handshake_never_yields_and_cleans_up_witness:
  "initialize stalled 0 (mem (snd (memory_streams (start :: (nat, string, string, nat) world)))) =
     (Raises (Exn ''timeout''), mem (snd (memory_streams (start :: (nat, string, string, nat) world)))) \<and>
   fst (create_connected_server_and_client_session stalled ''echo'' (Some 5) False idle start) =
     Raises (ExceptionGroup ''unhandled errors in a TaskGroup'' [Exn ''timeout'']) \<and>
   \<not> list_ex is_Yield (appended start
      (snd (create_connected_server_and_client_session stalled ''echo'' (Some 5) False idle start))) \<and>
   closed (mem (snd (create_connected_server_and_client_session stalled ''echo'' (Some 5) False idle start))) 1 \<and>
   closed (mem (snd (create_connected_server_and_client_session stalled ''echo'' (Some 5) False idle start))) 5 \<and>
   closed (mem (snd (create_connected_server_and_client_session stalled ''echo'' (Some 5) False idle start))) 4 \<and>
   closed (mem (snd (create_connected_server_and_client_session stalled ''echo'' (Some 5) False idle start))) 2"
proof -
  let ?run = "create_connected_server_and_client_session stalled ''echo'' (Some 5) False idle start"
  let ?h = "mem (snd (memory_streams (start :: (nat, string, string, nat) world)))"
  let ?g = "ExceptionGroup ''unhandled errors in a TaskGroup'' [Exn ''timeout''] :: string exn"
  have run: "?run = (fst ?run, snd ?run)" by simp
  have o: "create_initialization_options stalled ''echo'' = Inr ''echo-options''"
    and c: "ClientSession stalled (MemoryObjectReceiveStream 2 0) (MemoryObjectSendStream 4 3) (Some 5) ?h
      = (Returns 0, ?h)"
    and a: "session_aenter stalled 0 ?h = (Returns 0, ?h)"
    and i: "initialize stalled 0 ?h = (Raises (Exn ''timeout''), ?h)"
    and x: "session_aexit stalled 0 (Some (Exn ''timeout'')) ?h = (Returns False, ?h)"
    and g: "task_group_aexit stalled (Some (Exn ''timeout'')) ?h = (Raises ?g, ?h)"
    by (simp_all add: stalled_def responsive_def)
  have n: "fst ?run \<noteq> Suspends" by (simp add: stalled_run)
  note th = failed_handshake_never_yields_and_cleans_up [OF start_streams o c a i run]
  from th have 1: "\<not> list_ex is_Yield (appended start (snd ?run))" by (elim conjE)
  from th n have 2: "closed (mem (snd ?run)) 1 \<and> closed (mem (snd ?run)) 5 \<and>
      closed (mem (snd ?run)) 4 \<and> closed (mem (snd ?run)) 2" by simp
  from th x g have 3: "fst ?run = Raises ?g" by blast
  from 1 2 3 i show ?thesis by simp
qed

text \<open>
  C5 as stated fails: the handshake raises a timeout, the session's exit passes it on, and
  the task group's exit raises a group in its place, so the caller does not get the timeout
  itself.
\<close>

theorem failed_handshake_is_raised_counterexample:
  "initialize stalled 0 (mem (snd (memory_streams (start :: (nat, string, string, nat) world)))) =
     (Raises (Exn ''timeout''), mem (snd (memory_streams (start :: (nat, string, string, nat) world)))) \<and>
   fst (create_connected_server_and_client_session stalled ''echo'' (Some 5) False idle start) \<noteq> Raises (Exn ''timeout'')"
  by (simp add: stalled_run) (simp add: stalled_def responsive_def)

text \<open>
  C8, as the code has it. When the server's \<^verbatim>\<open>create_initialization_options\<close> returns, the
  run of the connector starts exactly one task, as its first call: the server's
  \<^verbatim>\<open>run\<close> on the server side's receive and send endpoints, with the options that call
  returned and with the connector's own \<^verbatim>\<open>raise_exceptions\<close> flag. When it raises, no
  task is started. The server side's endpoints are the peers of the client side's.
\<close>

theorem started_server_runs_on_the_server_side_pair:
  assumes "memory_streams w = (((client_read, client_write), (server_read, server_write)), w2)"
    and "create_connected_server_and_client_session env server t r body w = (out, w')"
  shows "(case create_initialization_options env server of
            Inr options \<Rightarrow>
              filter is_StartSoon (appended w w') =
                [StartSoon \<lparr>run_server = server,
                            run_read_stream = server_read,
                            run_write_stream = server_write,
                            run_initialization_options = options,
                            run_raise_exceptions = r\<rparr>] \<and>
              take 1 (appended w w') = filter is_StartSoon (appended w w')
          | Inl e \<Rightarrow> filter is_StartSoon (appended w w') = []) \<and>
         receive_state server_read = send_state client_write \<and>
         send_state server_write = receive_state client_read"
proof -
  have p: "receive_state server_read = send_state client_write \<and>
         send_state server_write = receive_state client_read"
    using assms(1) by (auto simp: memory_streams_eq Let_def)
  show ?thesis
  proof (cases "create_initialization_options env server")
    case (Inl e)
    from connector_not_started [OF assms(1) Inl assms(2)]
    have "appended w w' = [] \<or>
          appended w w' = closes ((client_read, client_write), (server_read, server_write))"
      by (cases "out = Suspends") auto
    then have "filter is_StartSoon (appended w w') = []"
      by (auto simp: closes_def is_StartSoon_def)
    with p Inl show ?thesis by simp
  next
    case (Inr opts)
    from connector_shape [OF assms(1) Inr assms(2)] obtain mid tl where
      a: "appended w w' = StartSoon \<lparr>run_server = server, run_read_stream = server_read,
          run_write_stream = server_write,
          run_initialization_options = opts,
          run_raise_exceptions = r\<rparr> # NewClientSession client_read client_write t # mid @ tl"
      and m: "mid = [] \<or> (\<exists>c. mid = [Initialized c, Yield c])"
      and t: "tl = [] \<or> tl = [Cancel] \<or>
            tl = Cancel # closes ((client_read, client_write), (server_read, server_write))"
      by blast
    have "filter is_StartSoon mid = []" using m by (auto simp: is_StartSoon_def)
    moreover have "filter is_StartSoon tl = []"
      using t by (auto simp: is_StartSoon_def closes_def)
    ultimately have f: "filter is_StartSoon (appended w w') =
           [StartSoon \<lparr>run_server = server,
                       run_read_stream = server_read,
                       run_write_stream = server_write,
                       run_initialization_options = opts,
                       run_raise_exceptions = r\<rparr>]"
      unfolding a by (simp add: is_StartSoon_def)
    with p a Inr show ?thesis by simp
  qed
qed

theorem started_server_runs_on_the_server_side_pair_witness:
  "create_initialization_options responsive ''echo'' = Inr ''echo-options'' \<and>
   filter is_StartSoon (appended start
      (snd (create_connected_server_and_client_session responsive ''echo'' None True idle start))) =
     [StartSoon \<lparr>run_server = ''echo'',
                 run_read_stream = MemoryObjectReceiveStream 5 3,
                 run_write_stream = MemoryObjectSendStream 1 0,
                 run_initialization_options = ''echo-options'',
                 run_raise_exceptions = True\<rparr>]"
proof -
  let ?run = "create_connected_server_and_client_session responsive ''echo'' None True idle start"
  have run: "?run = (fst ?run, snd ?run)" by simp
  have o: "create_initialization_options responsive ''echo'' = Inr ''echo-options''"
    by (simp add: responsive_def)
  from started_server_runs_on_the_server_side_pair [OF start_streams run] o
  show ?thesis by simp
qed

text \<open>
  C8 as stated fails: with a server whose \<^verbatim>\<open>create_initialization_options\<close> raises, the
  connector comes back to its caller without having started any task.
\<close>

theorem server_runs_on_the_server_side_pair_counterexample:
  "fst (create_connected_server_and_client_session unconfigured ''echo'' None False idle start) \<noteq> Suspends \<and>
   filter is_StartSoon (appended start
     (snd (create_connected_server_and_client_session unconfigured ''echo'' None False idle start))) = []"
  by (simp add: unconfigured_run appended_def) (simp add: start_def is_StartSoon_def)

subsection \<open>The declared types\<close>

text \<open>
  C10. Both queues are created with the item type "message or exception". Each endpoint pair
  the factory is declared to yield has a receive endpoint whose item type admits a message
  and admits an exception, and a send endpoint whose item type admits a message and does not
  admit an exception. Every kind of value a declared send endpoint admits is one its queue
  admits, so the declared pair is a narrower view of the streams that are created.
\<close>

theorem declared_envelope_is_asymmetric:
  "server_to_client_item = Union JSONRPCMessage Exception \<and>
   client_to_server_item = Union JSONRPCMessage Exception \<and>
   (case yielded_annotation of
      ((client_read, client_write), (server_read, server_write)) \<Rightarrow>
        client_read = ReceiveStreamOf server_to_client_item \<and>
        server_read = ReceiveStreamOf client_to_server_item \<and>
        admits (item_type client_read) IsMessage \<and> admits (item_type client_read) IsException \<and>
        admits (item_type server_read) IsMessage \<and> admits (item_type server_read) IsException \<and>
        client_write = SendStreamOf JSONRPCMessage \<and>
        server_write = SendStreamOf JSONRPCMessage \<and>
        admits (item_type client_write) IsMessage \<and> \<not> admits (item_type client_write) IsException \<and>
        admits (item_type server_write) IsMessage \<and> \<not> admits (item_type server_write) IsException \<and>
        admits client_to_server_item IsMessage \<and> admits server_to_client_item IsMessage)"
  by (simp add: server_to_client_item_def client_to_server_item_def yielded_annotation_def
      MessageStream_annotation_def)

end
